theory Spec2Isabelle
  imports Complex_Main "HOL-Library.Word" "HOL-Library.AList"
begin

section \<open>Data model of \<open>src/uploader.ts\<close>\<close>

text \<open>
  JavaScript numbers are modelled as \<open>int\<close> (file sizes, slice sizes and counters stay
  far below \<open>2 ^ 53\<close>, where the floating-point operations the code uses are exact on
  integers). An \<open>Error\<close> object is a value of \<open>err\<close>: the message prefixes the code
  puts in front of an inner message are constructors around the inner error.
\<close>

type_synonym byte = "8 word"

datatype err =
    TransportErr string  \<comment> \<open>an error raised by axios or the server connection\<close>
  | ApiErr string  \<comment> \<open>\<open>response.data.message\<close> of a response whose code is not 0\<close>
  | FsErr string  \<comment> \<open>an error of \<open>node:fs\<close> (missing file, access denied)\<close>
  | RangeErr  \<comment> \<open>\<open>ERR_OUT_OF_RANGE\<close> of \<open>fs.createReadStream\<close>\<close>
  | TypeErr  \<comment> \<open>a \<open>TypeError\<close> (property of \<open>undefined\<close>)\<close>
  | Canceled  \<comment> \<open>the axios cancellation error, \<open>axios.isCancel\<close> holds of it\<close>
  | CreateTaskFailed err
  | GetUrlFailed err
  | ReadFailed err
  | FinishFailed err
  | MergeCheckFailed err
  | PollTimeout
  | UploadFailed

fun isCancel :: "err \<Rightarrow> bool" where
  "isCancel Canceled = True"
| "isCancel _ = False"

datatype status = Pending | Running | Paused | Completed | Error | Cancel

datatype task_status = TaskPending | TaskCompleted | TaskRunning | TaskError | TaskAbort

text \<open>
  \<open>UploadChunkTask\<close>. The \<open>AbortController\<close> is the flag \<open>signal.aborted\<close>; a fresh
  controller is the flag \<open>False\<close>.
\<close>

record UploadChunkTask =
  task_filePath :: string
  task_start :: int
  task_chunkSize :: int
  task_size :: int
  task_token :: string
  task_uploadId :: string
  task_chunk :: int
  task_chunks :: int
  task_controller :: bool
  task_status :: task_status

record completed_info =
  fileId :: string
  filename :: string

datatype progress_event = Init | Preupload | Uploading | Complete | Merging

datatype debug_data =
    DebugCreateFailed err
  | DebugGetUrlFailed err
  | DebugChunkFailed err
  | DebugCompletedParts "int list" int int
  | DebugMerged int

text \<open>
  An emitted event. A progress event carries its phase, \<open>data.loaded\<close>, \<open>data.total\<close>
  and the chunk number or poll count where the code adds one; the fraction
  \<open>progress\<close> is not stored.
\<close>

datatype event =
    EvStart
  | EvCompleted completed_info
  | EvProgress progress_event int int "int option"
  | EvError err
  | EvCancel
  | EvDebug debug_data

text \<open>
  The operations on the outside world (file reads, requests, timers), logged in the
  order in which the awaited operations settle.
\<close>

datatype effect =
    DoMd5File string
  | DoCreate string string int string int
  | DoReadStream string int int
  | DoGetUploadUrl string int
  | DoPut string "byte list"
  | DoUploadComplete string
  | DoCheckMerge string
  | DoSleep int

record options =
  concurrency :: int
  retryTimes :: int
  retryDelay :: int
  limitRate :: int
  apiBaseUrl :: string
  duplicate :: int
  pollInterval :: int
  pollMaxTimes :: int

text \<open>
  The part of a \<open>PQueue\<close> the uploader uses: the jobs not yet started (each job is
  \<open>() => this.uploadChunk(task)\<close>, named by the part number of its task), the jobs
  started and not yet settled, and the pause flag.
\<close>

record pqueue =
  q_waiting :: "int list"
  q_running :: "int list"
  q_isPaused :: bool

text \<open>Where the body of \<open>upload()\<close> is suspended.\<close>

datatype phase = NotStarted | AwaitCreate | AwaitChunks | AwaitFinish | AwaitPoll | Finished

text \<open>How the promise of \<open>upload()\<close> settled.\<close>

datatype outcome = Returned "completed_info option" | Threw err

text \<open>
  The \<open>Uploader\<close> object, followed by the local variables of the suspended \<open>upload()\<close>
  call and of the promise of \<open>uploadChunks\<close>. \<open>fsize\<close> is the field \<open>size\<close>.
  \<open>chunkTasks\<close> and \<open>progress\<close> are objects with integer keys; a task object is
  named by the key under which \<open>uploadChunks\<close> stored it. \<open>listening\<close> holds once
  \<open>uploadChunks\<close> has registered its listeners on the queue, \<open>settled\<close> once its
  promise is resolved or rejected; \<open>awaited\<close> holds the value it settled with until the
  body of \<open>upload()\<close> continues with it. \<open>errorListener\<close> holds once the caller has
  registered a listener of \<open>error\<close> on the emitter, through \<open>on\<close>.
\<close>

record uploader =
  status :: status
  queue :: pqueue
  emitted :: "event list"
  effects :: "effect list"
  progress :: "(int \<times> int) list"
  chunkTasks :: "(int \<times> UploadChunkTask) list"
  fsize :: int
  opts :: options
  chunkSize :: int
  filePath :: string
  fname :: string
  token :: string
  parentFileID :: string
  phase :: phase
  result :: "outcome option"
  target :: "string option"
  preuploadID :: string
  fileID :: "string option"
  totalChunks :: int
  parts :: "int list"
  listening :: bool
  settled :: bool
  awaited :: "(err + bool) option"
  errorListener :: bool

section \<open>Chunk planning\<close>

text \<open>
  \<open>Math.ceil(this.size / this.chunkSize)\<close>. Division by zero gives \<open>Infinity\<close> or
  \<open>NaN\<close> in JavaScript, not a count: \<open>None\<close>.
\<close>

definition chunkCount :: "int \<Rightarrow> int \<Rightarrow> int option" where
  "chunkCount sz sliceSize =
     (if sliceSize = 0 then None else Some \<lceil>real_of_int sz / real_of_int sliceSize\<rceil>)"

text \<open>The task that the loop body of \<open>uploadChunks\<close> builds for index \<open>i\<close>.\<close>

definition newTask :: "uploader \<Rightarrow> string \<Rightarrow> int \<Rightarrow> int \<Rightarrow> UploadChunkTask" where
  "newTask this uploadId cnt i =
     (let start = i * chunkSize this;
          end' = min (start + chunkSize this) (fsize this)
      in \<lparr> task_filePath = filePath this, task_start = start, task_chunkSize = end' - start,
           task_size = fsize this, task_token = token this, task_uploadId = uploadId,
           task_chunk = i, task_chunks = cnt, task_controller = False,
           task_status = TaskPending \<rparr>)"

text \<open>\<open>for (let i = 0; i < totalChunks; i++)\<close>, collecting the tasks pushed.\<close>

function planFrom :: "uploader \<Rightarrow> string \<Rightarrow> int \<Rightarrow> int \<Rightarrow> UploadChunkTask list" where
  "planFrom this uploadId cnt i =
     (if i < cnt then newTask this uploadId cnt i # planFrom this uploadId cnt (i + 1)
      else [])"
  by pat_completeness auto
termination
  by (relation "measure (\<lambda>(this, uploadId, cnt, i). nat (cnt - i))") auto

declare planFrom.simps [simp del]

definition partNumber :: "UploadChunkTask \<Rightarrow> int" where
  "partNumber task = task_chunk task + 1"

text \<open>
  A list of (offset, length) ranges tiles \<open>[a, b)\<close>: each range is non-empty and begins
  where the one before ends, the first at \<open>a\<close>, the last ending at \<open>b\<close>.
\<close>

fun tiles :: "(int \<times> int) list \<Rightarrow> int \<Rightarrow> int \<Rightarrow> bool" where
  "tiles [] a b = (a = b)"
| "tiles ((off, len) # rs) a b = (off = a \<and> 0 < len \<and> tiles rs (a + len) b)"

definition ranges :: "UploadChunkTask list \<Rightarrow> (int \<times> int) list" where
  "ranges ts = map (\<lambda>t. (task_start t, task_chunkSize t)) ts"

fun numbered :: "UploadChunkTask list \<Rightarrow> int \<Rightarrow> bool" where
  "numbered [] k = True"
| "numbered (t # ts) k = (partNumber t = k \<and> numbered ts (k + 1))"

definition lastLength :: "UploadChunkTask list \<Rightarrow> int option" where
  "lastLength ts = (if ts = [] then None else Some (task_chunkSize (last ts)))"

definition chunkPlan :: "uploader \<Rightarrow> string \<Rightarrow> UploadChunkTask list option" where
  "chunkPlan this uploadId =
     (case chunkCount (fsize this) (chunkSize this) of
        None \<Rightarrow> None
      | Some chunks \<Rightarrow> Some (planFrom this uploadId chunks 0))"

section \<open>The outside world\<close>

datatype 'a api_response = ApiResponse (resp_code: int) (resp_message: string) (resp_data: 'a)

record create_data =
  cd_fileID :: "string option"
  cd_reuse :: bool
  cd_preuploadID :: string
  cd_sliceSize :: int

record url_data =
  presignedURL :: string
  isMultipart :: bool

record finish_data =
  fd_asyncUpload :: bool
  fd_fileID :: string
  fd_completed :: bool

record merge_data =
  md_completed :: bool
  md_fileID :: string

text \<open>
  How a transfer ends. The progress that it reports while it is in flight, whether it
  then succeeds, fails or is aborted, is an action of its own: see \<open>chunkProgress\<close>.
\<close>

datatype put_result = PutOk | PutFailed err

text \<open>
  A deterministic transport and file system: what each operation answers. A request
  answers \<open>Inl e\<close> when axios rejects with \<open>e\<close>, and the response body otherwise. The
  chunk operations are keyed by part number and retry count, the merge check by the
  number of the poll. \<open>basename\<close> is \<open>path.basename\<close>.
\<close>

record env =
  basename :: "string \<Rightarrow> string"
  on_statSync :: "string \<Rightarrow> err + int"
  on_readFile :: "string \<Rightarrow> err + byte list"
  on_md5File :: "string \<Rightarrow> err + string"
  on_create :: "err + create_data api_response"
  on_getUploadUrl :: "int \<Rightarrow> int \<Rightarrow> err + url_data api_response"
  on_put :: "int \<Rightarrow> int \<Rightarrow> put_result"
  on_uploadComplete :: "err + finish_data api_response"
  on_checkMerge :: "int \<Rightarrow> err + merge_data api_response"

section \<open>Small helpers\<close>

text \<open>
  \<open>this.emitter.emit(name, ...)\<close> for the events other than \<open>error\<close>: the event is
  appended to the log and \<open>emit\<close> returns, whether or not somebody listens. The
  caller's listeners are taken to return normally.
\<close>

definition emit :: "event \<Rightarrow> uploader \<Rightarrow> uploader" where
  "emit ev this = this\<lparr>emitted := emitted this @ [ev]\<rparr>"

text \<open>
  \<open>this.emitter.emit("error", error)\<close>. The emitter is a \<open>TypedEmitter\<close>, that is Node's
  \<open>EventEmitter\<close>: with no listener of \<open>error\<close> registered, \<open>emit\<close> throws the error
  itself (every value thrown inside \<open>upload()\<close> is an \<open>Error\<close> object) instead of
  returning, and no event is logged: \<open>Inl\<close>.
\<close>

definition emitError :: "err \<Rightarrow> uploader \<Rightarrow> err + uploader" where
  "emitError error this =
     (if errorListener this then Inr (emit (EvError error) this) else Inl error)"

definition perform :: "effect \<Rightarrow> uploader \<Rightarrow> uploader" where
  "perform fx this = this\<lparr>effects := effects this @ [fx]\<rparr>"

text \<open>\<open>this.chunkTasks[partNumber].status = st\<close>\<close>

definition setTaskStatus :: "int \<Rightarrow> task_status \<Rightarrow> uploader \<Rightarrow> uploader" where
  "setTaskStatus pn st this =
     this\<lparr>chunkTasks := AList.map_entry pn (\<lambda>t. t\<lparr>task_status := st\<rparr>) (chunkTasks this)\<rparr>"

text \<open>
  The body \<open>post; if (code !== 0) throw new Error(prefix + message); return data\<close>
  shared by the four request methods: the error it raises before the method's own
  \<open>catch\<close> wraps it.
\<close>

definition requestBody :: "(err \<Rightarrow> err) \<Rightarrow> err + 'a api_response \<Rightarrow> err + 'a" where
  "requestBody prefix r =
     (case r of
        Inl e \<Rightarrow> Inl e
      | Inr response \<Rightarrow>
          if resp_code response \<noteq> 0 then Inl (prefix (ApiErr (resp_message response)))
          else Inr (resp_data response))"

section \<open>Reading a chunk\<close>

text \<open>
  \<open>fs.createReadStream(path, {start, end, highWaterMark})\<close>: it raises a range error
  at once when \<open>start\<close> or \<open>end\<close> is negative or \<open>start > end\<close>; it emits \<open>error\<close> when
  the file cannot be opened or read; otherwise it emits as \<open>data\<close> the bytes of the file
  at positions \<open>start\<close> to \<open>end\<close> inclusive that exist, in buffers of at most
  \<open>highWaterMark\<close> bytes, and then \<open>end\<close>.
\<close>

function bursts :: "nat \<Rightarrow> 'a list \<Rightarrow> 'a list list" where
  "bursts hw xs = (if hw = 0 \<or> xs = [] then [] else take hw xs # bursts hw (drop hw xs))"
  by pat_completeness auto
termination
  by (relation "measure (\<lambda>(hw, xs). length xs)") auto

declare bursts.simps [simp del]

text \<open>\<open>Buffer.concat(list, totalLength)\<close>: truncated or zero-filled to \<open>totalLength\<close>.\<close>

definition bufferConcat :: "byte list list \<Rightarrow> nat \<Rightarrow> byte list" where
  "bufferConcat list totalLength =
     take totalLength (concat list @ replicate (totalLength - length (concat list)) 0)"

definition readChunk :: "env \<Rightarrow> string \<Rightarrow> int \<Rightarrow> int \<Rightarrow> err + byte list" where
  "readChunk world path start chunkSz =
     (let endByte = start + chunkSz - 1;
          highWaterMark = min chunkSz (64 * 1024)
      in if start < 0 \<or> endByte < 0 \<or> endByte < start then Inl RangeErr
         else case on_readFile world path of
                Inl e \<Rightarrow> Inl (ReadFailed e)
              | Inr content \<Rightarrow>
                  let chunks = bursts (nat highWaterMark)
                        (take (nat (endByte - start + 1)) (drop (nat start) content));
                      totalLength = sum_list (map length chunks)
                  in Inr (bufferConcat chunks totalLength))"

section \<open>Uploading one chunk\<close>

definition getChunkUploadUrl ::
  "env \<Rightarrow> uploader \<Rightarrow> string \<Rightarrow> int \<Rightarrow> int \<Rightarrow> uploader \<times> (err + url_data)" where
  "getChunkUploadUrl world this uploadId sliceNo retryCount =
     (let this1 = perform (DoGetUploadUrl uploadId sliceNo) this
      in case requestBody GetUrlFailed (on_getUploadUrl world sliceNo retryCount) of
           Inl e \<Rightarrow> (emit (EvDebug (DebugGetUrlFailed e)) this1, Inl (GetUrlFailed e))
         | Inr d \<Rightarrow> (this1, Inr d))"

text \<open>The \<open>onUploadProgress\<close> callback that \<open>uploadChunk\<close> hands to \<open>axios.put\<close>.\<close>

definition onUploadProgress :: "int \<Rightarrow> uploader \<Rightarrow> int \<Rightarrow> uploader" where
  "onUploadProgress pn this loaded =
     (let this1 = this\<lparr>progress := AList.update pn loaded (progress this)\<rparr>;
          totalLoaded = sum_list (map snd (progress this1))
      in emit (EvProgress Uploading totalLoaded (fsize this1) (Some pn)) this1)"

text \<open>
  How \<open>axios.put(url, data, {signal, onUploadProgress})\<close> settles: with a cancellation
  error when the signal of the task's current controller is aborted, with the
  transport's answer otherwise.
\<close>

definition controllerAborted :: "uploader \<Rightarrow> int \<Rightarrow> bool" where
  "controllerAborted this ref =
     (case map_of (chunkTasks this) ref of None \<Rightarrow> False | Some t \<Rightarrow> task_controller t)"

definition axiosPut ::
  "env \<Rightarrow> uploader \<Rightarrow> int \<Rightarrow> int \<Rightarrow> int \<Rightarrow> string \<Rightarrow> byte list \<Rightarrow> uploader \<times> (err + unit)" where
  "axiosPut world this ref pn retryCount url fileData =
     (let this1 = perform (DoPut url fileData) this
      in if controllerAborted this1 ref then (this1, Inl Canceled)
         else case on_put world pn retryCount of
                PutFailed e \<Rightarrow> (this1, Inl e)
              | PutOk \<Rightarrow> (this1, Inr ()))"

text \<open>The \<open>try\<close> block of \<open>uploadChunk\<close>: read, request the destination, transfer.\<close>

definition tryUploadChunk ::
  "env \<Rightarrow> uploader \<Rightarrow> int \<Rightarrow> UploadChunkTask \<Rightarrow> int \<Rightarrow> uploader \<times> (err + int)" where
  "tryUploadChunk world this ref task retryCount =
     (let pn = task_chunk task + 1;
          this1 = perform (DoReadStream (task_filePath task) (task_start task)
                    (task_start task + task_chunkSize task - 1)) this
      in case readChunk world (task_filePath task) (task_start task) (task_chunkSize task) of
           Inl e \<Rightarrow> (this1, Inl e)
         | Inr fileData \<Rightarrow>
             (case getChunkUploadUrl world this1 (task_uploadId task) pn retryCount of
                (this2, Inl e) \<Rightarrow> (this2, Inl e)
              | (this2, Inr u) \<Rightarrow>
                  (case axiosPut world this2 ref pn retryCount (presignedURL u) fileData of
                     (this3, Inl e) \<Rightarrow> (this3, Inl e)
                   | (this3, Inr _) \<Rightarrow> (this3, Inr pn))))"

lemma opts_tryUploadChunk:
  "tryUploadChunk world this ref task retryCount = (this', r) \<Longrightarrow> opts this' = opts this"
  by (auto simp: tryUploadChunk_def getChunkUploadUrl_def axiosPut_def perform_def emit_def
        Let_def split: sum.splits prod.splits if_splits put_result.splits)

text \<open>
  \<open>uploadChunk(task, retryCount)\<close>. \<open>ref\<close> names the task object. The result is
  \<open>Inr (Some partNumber)\<close>, \<open>Inr None\<close> for \<open>undefined\<close>, or \<open>Inl e\<close> when it throws.
\<close>

function uploadChunk ::
  "env \<Rightarrow> uploader \<Rightarrow> int \<Rightarrow> int \<Rightarrow> uploader \<times> (err + int option)" where
  "uploadChunk world this ref retryCount =
     (case map_of (chunkTasks this) ref of
        None \<Rightarrow> (this, Inl TypeErr)
      | Some task \<Rightarrow>
          (case tryUploadChunk world (setTaskStatus (task_chunk task + 1) TaskRunning this)
                  ref task retryCount of
             (this2, Inr pn) \<Rightarrow> (this2, Inr (Some pn))
           | (this2, Inl e) \<Rightarrow>
               if isCancel e then (setTaskStatus (task_chunk task + 1) TaskAbort this2, Inr None)
               else if retryCount < retryTimes (opts this2)
               then uploadChunk world (perform (DoSleep (retryDelay (opts this2))) this2) ref
                      (retryCount + 1)
               else (setTaskStatus (task_chunk task + 1) TaskError this2, Inl e)))"
  by pat_completeness auto
termination
proof (relation "measure (\<lambda>(world, this, ref, retryCount). nat (retryTimes (opts this) - retryCount))",
    goal_cases)
  case 1
  show ?case by simp
next
  case (2 world this ref retryCount task this2 y e)
  have "opts this2 = opts this"
    using opts_tryUploadChunk [OF 2(2) [symmetric]] by (simp add: setTaskStatus_def)
  with 2(5) show ?case by (simp add: perform_def)
qed

declare uploadChunk.simps [simp del]

section \<open>The session: catch block, completion, and the promise of \<open>uploadChunks\<close>\<close>

text \<open>
  The \<open>catch\<close> block of \<open>upload()\<close>. When \<open>emit("error", error)\<close> throws, the two
  statements after it are not reached and \<open>upload()\<close> rejects with what \<open>emit\<close> threw.
\<close>

definition uploadCatch :: "err \<Rightarrow> uploader \<Rightarrow> uploader" where
  "uploadCatch error this =
     (if status this = Cancel then this\<lparr>phase := Finished, result := Some (Returned None)\<rparr>
      else case emitError error this of
             Inl thrown \<Rightarrow> this\<lparr>phase := Finished, result := Some (Threw thrown)\<rparr>
           | Inr this1 \<Rightarrow>
               this1\<lparr>status := Error, phase := Finished, result := Some (Threw error)\<rparr>)"

text \<open>\<open>fileID || preuploadID\<close> and \<open>target || this.filename\<close>\<close>

definition orElse :: "string option \<Rightarrow> string \<Rightarrow> string" where
  "orElse a b = (case a of None \<Rightarrow> b | Some x \<Rightarrow> if x = [] then b else x)"

text \<open>
  Building \<open>completedInfo\<close>, the \<open>complete\<close> progress event, the \<open>completed\<close> event
  and the return: the same code on the reuse path and at step 6.
\<close>

definition uploadCompleted :: "uploader \<Rightarrow> uploader" where
  "uploadCompleted this =
     (let completedInfo = \<lparr> fileId = orElse (fileID this) (preuploadID this),
                              filename = orElse (target this) (fname this) \<rparr>
      in (emit (EvCompleted completedInfo)
            (emit (EvProgress Complete (fsize this) (fsize this) None) this))
           \<lparr>status := Completed, phase := Finished, result := Some (Returned (Some completedInfo))\<rparr>)"

text \<open>
  \<open>upload()\<close> after \<open>await this.uploadChunks(...)\<close>: step 3's check, then the call of
  \<open>finishUpload\<close>.
\<close>

definition afterChunks :: "bool \<Rightarrow> uploader \<Rightarrow> uploader" where
  "afterChunks ok this =
     (if \<not> ok then
        (if status this = Running then uploadCatch UploadFailed this
         else this\<lparr>phase := Finished, result := Some (Returned None)\<rparr>)
      else this\<lparr>phase := AwaitFinish\<rparr>)"

text \<open>\<open>resolve\<close> and \<open>reject\<close> of the promise of \<open>uploadChunks\<close>: the first call wins.\<close>

definition resolveChunks :: "bool \<Rightarrow> uploader \<Rightarrow> uploader" where
  "resolveChunks ok this =
     (if settled this then this else this\<lparr>settled := True, awaited := Some (Inr ok)\<rparr>)"

definition rejectChunks :: "err \<Rightarrow> uploader \<Rightarrow> uploader" where
  "rejectChunks error this =
     (if settled this then this else this\<lparr>settled := True, awaited := Some (Inl error)\<rparr>)"

text \<open>
  The continuation of \<open>upload()\<close> runs once the synchronous code that settled the
  promise has returned.
\<close>

definition microtasks :: "uploader \<Rightarrow> uploader" where
  "microtasks this =
     (case awaited this of
        None \<Rightarrow> this
      | Some (Inr ok) \<Rightarrow> afterChunks ok (this\<lparr>awaited := None\<rparr>)
      | Some (Inl error) \<Rightarrow> uploadCatch error (this\<lparr>awaited := None\<rparr>))"

section \<open>The queue\<close>

text \<open>
  The listener of \<open>idle\<close> that \<open>uploadChunks\<close> registers. Its local array \<open>chunkTasks\<close>
  holds the tasks that this call has planned, one for each entry it has written in
  \<open>this.chunkTasks\<close>; a session calls \<open>uploadChunks\<close> once, so both have the same length.
\<close>

definition onIdle :: "uploader \<Rightarrow> uploader" where
  "onIdle this =
     (if length (parts this) = 0 \<and> length (chunkTasks this) > 0 then resolveChunks False this
      else if int (length (parts this)) = totalChunks this then resolveChunks True this
      else resolveChunks False
             (emit (EvDebug (DebugCompletedParts (parts this) (totalChunks this)
                      (int (length (parts this))))) this))"

text \<open>The listener of \<open>completed\<close>.\<close>

definition onCompleted :: "int option \<Rightarrow> uploader \<Rightarrow> uploader" where
  "onCompleted res this =
     (case res of
        None \<Rightarrow> this
      | Some pn \<Rightarrow> (setTaskStatus pn TaskCompleted this)\<lparr>parts := parts this @ [pn]\<rparr>)"

text \<open>\<open>taskClear\<close>: \<open>queue.clear()\<close> and the abort of every task's controller.\<close>

definition taskClear :: "uploader \<Rightarrow> uploader" where
  "taskClear this =
     this\<lparr>queue := (queue this)\<lparr>q_waiting := []\<rparr>,
          chunkTasks := map (\<lambda>(k, t). (k, t\<lparr>task_controller := True\<rparr>)) (chunkTasks this)\<rparr>"

text \<open>The listener of \<open>error\<close>.\<close>

definition onError :: "err \<Rightarrow> uploader \<Rightarrow> uploader" where
  "onError error this = rejectChunks error (taskClear this)"

text \<open>
  The queue starts a job: it leaves the waiting list, counts as pending, and
  \<open>uploadChunk\<close> runs up to its first \<open>await\<close>, which marks the task \<open>running\<close>.
\<close>

definition startJob :: "int \<Rightarrow> uploader \<Rightarrow> uploader" where
  "startJob ref this =
     (let q = queue this;
          this1 = this\<lparr>queue := q\<lparr>q_waiting := tl (q_waiting q), q_running := q_running q @ [ref]\<rparr>\<rparr>
      in case map_of (chunkTasks this1) ref of
           None \<Rightarrow> this1
         | Some task \<Rightarrow> setTaskStatus (task_chunk task + 1) TaskRunning this1)"

text \<open>
  The queue's internal step after every \<open>add\<close>, after every settled job and on
  \<open>start()\<close>: with nothing waiting it emits \<open>idle\<close> when nothing is pending either;
  otherwise it starts the next job unless paused or at the concurrency limit.
  It answers whether a job was started.
\<close>

definition tryToStartAnother :: "uploader \<Rightarrow> uploader \<times> bool" where
  "tryToStartAnother this =
     (let q = queue this
      in if q_waiting q = [] then
           (if q_running q = [] \<and> listening this then onIdle this else this, False)
         else if \<not> q_isPaused q \<and> int (length (q_running q)) < concurrency (opts this)
         then (startJob (hd (q_waiting q)) this, True)
         else (this, False))"

text \<open>\<open>queue.add(() => this.uploadChunk(task))\<close>\<close>

definition queueAdd :: "int \<Rightarrow> uploader \<Rightarrow> uploader" where
  "queueAdd ref this =
     fst (tryToStartAnother
            (this\<lparr>queue := (queue this)\<lparr>q_waiting := q_waiting (queue this) @ [ref]\<rparr>\<rparr>))"

lemma tryToStartAnother_started:
  "tryToStartAnother this = (this', True) \<Longrightarrow>
   length (q_waiting (queue this')) < length (q_waiting (queue this))"
  by (auto simp: tryToStartAnother_def startJob_def setTaskStatus_def Let_def
        split: if_splits option.splits)

text \<open>\<open>while (this.tryToStartAnother()) {}\<close>\<close>

function processQueue :: "uploader \<Rightarrow> uploader" where
  "processQueue this =
     (case tryToStartAnother this of
        (this1, started) \<Rightarrow> if started then processQueue this1 else this1)"
  by pat_completeness auto
termination
proof (relation "measure (\<lambda>this. length (q_waiting (queue this)))", goal_cases)
  case 1
  show ?case by simp
next
  case (2 this this1 started)
  then show ?case using tryToStartAnother_started [of this this1] by simp
qed

declare processQueue.simps [simp del]

text \<open>\<open>queue.start()\<close>\<close>

definition queueStart :: "uploader \<Rightarrow> uploader" where
  "queueStart this =
     (if \<not> q_isPaused (queue this) then this
      else processQueue (this\<lparr>queue := (queue this)\<lparr>q_isPaused := False\<rparr>\<rparr>))"

section \<open>Pause, resume, cancel\<close>

definition pause :: "uploader \<Rightarrow> uploader" where
  "pause this =
     (if status this \<noteq> Running then this
      else
        let running = filter (\<lambda>(k, t). task_status t = TaskRunning) (chunkTasks this)
        in this\<lparr>status := Paused,
                queue := (queue this)\<lparr>q_isPaused := True\<rparr>,
                progress := foldl (\<lambda>pr (k, t). AList.update (task_chunk t + 1) 0 pr)
                              (progress this) running,
                chunkTasks := map (\<lambda>(k, t). (k, if task_status t = TaskRunning
                                                   then t\<lparr>task_controller := True\<rparr> else t))
                                (chunkTasks this)\<rparr>)"

text \<open>One round of the \<open>forEach\<close> of \<open>resume\<close>.\<close>

definition resubmit :: "uploader \<Rightarrow> int \<Rightarrow> uploader" where
  "resubmit this ref =
     queueAdd ref
       (this\<lparr>chunkTasks := AList.map_entry ref
                 (\<lambda>t. t\<lparr>task_controller := False, task_status := TaskPending\<rparr>)
                 (chunkTasks this)\<rparr>)"

definition resume :: "uploader \<Rightarrow> uploader" where
  "resume this =
     (if status this \<noteq> Paused then this
      else
        let abortedTasks = map fst (filter (\<lambda>(k, t). task_status t = TaskAbort) (chunkTasks this))
        in queueStart (foldl resubmit (this\<lparr>status := Running\<rparr>) abortedTasks))"

definition cancel :: "uploader \<Rightarrow> uploader" where
  "cancel this = emit EvCancel (taskClear (this\<lparr>status := Cancel\<rparr>))"

section \<open>The requests of a session\<close>

text \<open>
  \<open>createUploadTask\<close> from its \<open>try\<close> block on; the \<open>preupload\<close> progress event before
  it is emitted when \<open>upload()\<close> is called, see \<open>uploadCall\<close>.
\<close>

definition createUploadTask :: "env \<Rightarrow> uploader \<Rightarrow> uploader \<times> (err + create_data)" where
  "createUploadTask world this =
     (let this1 = perform (DoMd5File (filePath this)) this
      in case (case on_md5File world (filePath this) of
                 Inl e \<Rightarrow> (this1, Inl e)
               | Inr etag \<Rightarrow>
                   (perform (DoCreate (case target this of None \<Rightarrow> parentFileID this | Some t \<Rightarrow> t)
                               (fname this) (fsize this) etag (duplicate (opts this))) this1,
                    requestBody CreateTaskFailed (on_create world))) of
           (this2, Inl e) \<Rightarrow> (emit (EvDebug (DebugCreateFailed e)) this2, Inl (CreateTaskFailed e))
         | (this2, Inr d) \<Rightarrow> (this2, Inr d))"

definition finishUpload :: "env \<Rightarrow> uploader \<Rightarrow> string \<Rightarrow> uploader \<times> (err + finish_data)" where
  "finishUpload world this uploadId =
     (perform (DoUploadComplete uploadId) this,
      case requestBody FinishFailed (on_uploadComplete world) of
        Inl e \<Rightarrow> Inl (FinishFailed e)
      | Inr d \<Rightarrow> Inr d)"

definition checkMergeStatus ::
  "env \<Rightarrow> uploader \<Rightarrow> string \<Rightarrow> int \<Rightarrow> uploader \<times> (err + merge_data)" where
  "checkMergeStatus world this uploadId n =
     (perform (DoCheckMerge uploadId) this,
      case requestBody MergeCheckFailed (on_checkMerge world n) of
        Inl e \<Rightarrow> Inl (MergeCheckFailed e)
      | Inr d \<Rightarrow> Inr d)"

text \<open>
  The \<open>while\<close> loop of \<open>pollUploadStatus\<close>, entered with the current \<open>pollCount\<close>. The
  timeout is thrown inside the \<open>try\<close> block, so the loop's \<open>catch\<close> wraps it as it wraps
  a failed check.
\<close>

function pollLoop ::
  "env \<Rightarrow> string \<Rightarrow> int \<Rightarrow> int \<Rightarrow> uploader \<Rightarrow> int \<Rightarrow> uploader \<times> (err + unit)" where
  "pollLoop world uploadId maxPollTimes interval this pollCount =
     (if pollCount < maxPollTimes then
        (case checkMergeStatus world this uploadId (pollCount + 1) of
           (this1, Inl e) \<Rightarrow> (this1, Inl (MergeCheckFailed e))
         | (this1, Inr res) \<Rightarrow>
             if md_completed res
             then (emit (EvDebug (DebugMerged (pollCount + 1))) this1, Inr ())
             else if pollCount + 1 \<ge> maxPollTimes
             then (this1, Inl (MergeCheckFailed PollTimeout))
             else pollLoop world uploadId maxPollTimes interval
                    (perform (DoSleep interval)
                       (emit (EvProgress Merging (fsize this1) (fsize this1) (Some (pollCount + 1)))
                          this1))
                    (pollCount + 1))
      else (this, Inr ()))"
  by pat_completeness auto
termination
  by (relation "measure (\<lambda>(world, uploadId, maxPollTimes, interval, this, pollCount).
        nat (maxPollTimes - pollCount))") auto

declare pollLoop.simps [simp del]

definition pollUploadStatus :: "env \<Rightarrow> uploader \<Rightarrow> string \<Rightarrow> uploader \<times> (err + unit)" where
  "pollUploadStatus world this uploadId =
     pollLoop world uploadId (pollMaxTimes (opts this)) (pollInterval (opts this)) this 0"

section \<open>The body of \<open>upload()\<close>, from one suspension to the next\<close>

text \<open>Up to \<open>await this.createUploadTask(target)\<close>.\<close>

definition uploadCall :: "string option \<Rightarrow> uploader \<Rightarrow> uploader" where
  "uploadCall tgt this =
     emit (EvProgress Preupload 0 (fsize this) None)
       (emit EvStart (this\<lparr>status := Running, phase := AwaitCreate, target := tgt\<rparr>))"

text \<open>
  The synchronous body of the promise of \<open>uploadChunks\<close>: the tasks are built and stored,
  each is added to the queue, and the listeners are registered.
\<close>

definition uploadChunks :: "uploader \<Rightarrow> string \<Rightarrow> int \<Rightarrow> uploader" where
  "uploadChunks this uploadId chunks =
     (let tasks = planFrom this uploadId chunks 0;
          this1 = this\<lparr>chunkTasks := foldl (\<lambda>m task. AList.update (task_chunk task + 1) task m)
                                           (chunkTasks this) tasks\<rparr>;
          this2 = foldl (\<lambda>s task. queueAdd (task_chunk task + 1) s) this1 tasks
      in this2\<lparr>totalChunks := chunks, parts := [], listening := True, settled := False,
               awaited := None\<rparr>)"

text \<open>
  From the answer of \<open>createUploadTask\<close> to \<open>await this.uploadChunks(...)\<close>. With a slice
  size of 0 the chunk count is no number and the planning loop is not modelled: \<open>None\<close>.
\<close>

definition afterCreate :: "env \<Rightarrow> uploader \<Rightarrow> uploader option" where
  "afterCreate world this =
     (case createUploadTask world this of
        (this1, Inl e) \<Rightarrow> Some (uploadCatch e this1)
      | (this1, Inr d) \<Rightarrow>
          let this2 = this1\<lparr>preuploadID := cd_preuploadID d, fileID := cd_fileID d\<rparr>
          in if cd_reuse d then Some (uploadCompleted this2)
             else
               let this3 = this2\<lparr>chunkSize := cd_sliceSize d\<rparr>
               in (case chunkCount (fsize this3) (chunkSize this3) of
                     None \<Rightarrow> None
                   | Some chunks \<Rightarrow>
                       Some ((uploadChunks this3 (cd_preuploadID d) chunks)
                               \<lparr>phase := AwaitChunks\<rparr>)))"

text \<open>From the answer of \<open>finishUpload\<close> to the poll or to the end.\<close>

definition afterFinish :: "env \<Rightarrow> uploader \<Rightarrow> uploader" where
  "afterFinish world this =
     (case finishUpload world this (preuploadID this) of
        (this1, Inl e) \<Rightarrow> uploadCatch e this1
      | (this1, Inr finishResult) \<Rightarrow>
          if fd_asyncUpload finishResult \<and> \<not> fd_completed finishResult
          then (emit (EvProgress Merging (fsize this1) (fsize this1) None) this1)
                 \<lparr>phase := AwaitPoll\<rparr>
          else uploadCompleted this1)"

definition afterPoll :: "env \<Rightarrow> uploader \<Rightarrow> uploader" where
  "afterPoll world this =
     (case pollUploadStatus world this (preuploadID this) of
        (this1, Inl e) \<Rightarrow> uploadCatch e this1
      | (this1, Inr _) \<Rightarrow> uploadCompleted this1)"

section \<open>A chunk upload settles\<close>

text \<open>\<open>next()\<close> of the queue: the job no longer counts as pending.\<close>

definition queueNext :: "int \<Rightarrow> uploader \<Rightarrow> uploader" where
  "queueNext ref this =
     fst (tryToStartAnother
            (this\<lparr>queue := (queue this)\<lparr>q_running := remove1 ref (q_running (queue this))\<rparr>\<rparr>))"

text \<open>
  The job of the task \<open>ref\<close> settles: \<open>uploadChunk\<close> runs to its end against the
  transport, the queue emits \<open>completed\<close> or \<open>error\<close> and moves on, the body of
  \<open>upload()\<close> continues if that settled its promise, and last the \<open>catch\<close> attached to
  \<open>queue.add\<close> emits its debug event.
\<close>

definition settleChunk :: "env \<Rightarrow> int \<Rightarrow> uploader \<Rightarrow> uploader option" where
  "settleChunk world ref this =
     (if ref \<notin> set (q_running (queue this)) then None
      else case uploadChunk world this ref 0 of
             (this1, Inr res) \<Rightarrow>
               Some (microtasks (queueNext ref
                 (if listening this1 then onCompleted res this1 else this1)))
           | (this1, Inl e) \<Rightarrow>
               Some (emit (EvDebug (DebugChunkFailed e))
                 (microtasks (queueNext ref
                    (if listening this1 then onError e this1 else this1)))))"

text \<open>
  The transfer of the task \<open>ref\<close>, in flight and not aborted, reports that \<open>loaded\<close>
  bytes are sent: axios calls the \<open>onUploadProgress\<close> callback of that \<open>uploadChunk\<close>
  call. Nothing is reported for a job that is not started or a transfer that is aborted:
  \<open>None\<close>.
\<close>

definition chunkProgress :: "int \<Rightarrow> int \<Rightarrow> uploader \<Rightarrow> uploader option" where
  "chunkProgress ref loaded this =
     (if ref \<notin> set (q_running (queue this)) then None
      else case map_of (chunkTasks this) ref of
             None \<Rightarrow> None
           | Some task \<Rightarrow>
               if task_controller task then None
               else Some (onUploadProgress (task_chunk task + 1) this loaded))"

section \<open>Sessions as sequences of actions\<close>

text \<open>
  What can happen to a session: the caller's calls (\<open>upload\<close>, \<open>pause\<close>, \<open>resume\<close>,
  \<open>cancel\<close>, and \<open>on("error", listener)\<close>), the settling of the request that \<open>upload()\<close>
  awaits (\<open>Settle\<close>), the settling of a started chunk upload, and a progress report
  of a transfer in flight. A second call of \<open>upload()\<close> and a settling or a report with
  nothing in flight are not modelled: \<open>None\<close>.
\<close>

datatype action = Upload "string option" | PauseCall | ResumeCall | CancelCall | OnErrorCall
  | Settle | ChunkSettle int | ChunkProgress int int

fun step :: "env \<Rightarrow> uploader \<Rightarrow> action \<Rightarrow> uploader option" where
  "step world this (Upload tgt) =
     (if phase this = NotStarted then Some (uploadCall tgt this) else None)"
| "step world this PauseCall = Some (microtasks (pause this))"
| "step world this ResumeCall = Some (microtasks (resume this))"
| "step world this CancelCall = Some (microtasks (cancel this))"
| "step world this OnErrorCall = Some (this\<lparr>errorListener := True\<rparr>)"
| "step world this Settle =
     (case phase this of
        AwaitCreate \<Rightarrow> afterCreate world this
      | AwaitFinish \<Rightarrow> Some (afterFinish world this)
      | AwaitPoll \<Rightarrow> Some (afterPoll world this)
      | _ \<Rightarrow> None)"
| "step world this (ChunkSettle ref) = settleChunk world ref this"
| "step world this (ChunkProgress ref loaded) = chunkProgress ref loaded this"

fun run :: "env \<Rightarrow> uploader \<Rightarrow> action list \<Rightarrow> uploader option" where
  "run world this [] = Some this"
| "run world this (a # as) =
     (case step world this a of None \<Rightarrow> None | Some this1 \<Rightarrow> run world this1 as)"

section \<open>The constructor\<close>

record user_options =
  u_concurrency :: "int option"
  u_retryTimes :: "int option"
  u_retryDelay :: "int option"
  u_limitRate :: "int option"
  u_duplicate :: "int option"
  u_pollInterval :: "int option"
  u_pollMaxTimes :: "int option"

definition pick :: "'a option \<Rightarrow> 'a \<Rightarrow> 'a" where
  "pick given dflt = (case given of None \<Rightarrow> dflt | Some v \<Rightarrow> v)"

text \<open>\<open>Object.assign({defaults}, options)\<close>\<close>

definition assignOptions :: "user_options \<Rightarrow> options" where
  "assignOptions given =
     \<lparr> concurrency = pick (u_concurrency given) 3,
       retryTimes = pick (u_retryTimes given) 3,
       retryDelay = pick (u_retryDelay given) 3000,
       limitRate = pick (u_limitRate given) 0,
       apiBaseUrl = ''https://open-api.123pan.com'',
       duplicate = pick (u_duplicate given) 1,
       pollInterval = pick (u_pollInterval given) 2000,
       pollMaxTimes = pick (u_pollMaxTimes given) 30 \<rparr>"

definition getFileSizeSync :: "env \<Rightarrow> string \<Rightarrow> err + int" where
  "getFileSizeSync world path = on_statSync world path"

text \<open>
  \<open>new Uploader(filePath, token, parentFileID, options)\<close>. \<open>new PQueue\<close> throws a
  \<open>TypeError\<close> unless the concurrency is at least 1. When the size cannot be read the
  constructor's \<open>catch\<close> block calls \<open>emit("error", e)\<close>; no listener can be registered
  yet, so that call throws \<open>e\<close>, as the \<open>throw e\<close> after it would: no object is returned.
  The object that is returned has no listener of \<open>error\<close>.
\<close>

definition newUploader ::
  "env \<Rightarrow> string \<Rightarrow> string \<Rightarrow> string option \<Rightarrow> user_options \<Rightarrow> err + uploader" where
  "newUploader world path tok parent given =
     (let options = assignOptions given
      in if concurrency options < 1 then Inl TypeErr
         else case getFileSizeSync world path of
                Inl e \<Rightarrow> Inl e
              | Inr sz \<Rightarrow>
                  Inr \<lparr> status = Pending,
                        queue = \<lparr> q_waiting = [], q_running = [], q_isPaused = False \<rparr>,
                        emitted = [EvProgress Init 0 sz None],
                        effects = [],
                        progress = [],
                        chunkTasks = [],
                        fsize = sz,
                        opts = options,
                        chunkSize = 4 * 1024 * 1024,
                        filePath = path,
                        fname = basename world path,
                        token = tok,
                        parentFileID = pick parent ''0'',
                        phase = NotStarted,
                        result = None,
                        target = None,
                        preuploadID = [],
                        fileID = None,
                        totalChunks = 0,
                        parts = [],
                        listening = False,
                        settled = False,
                        awaited = None,
                        errorListener = False \<rparr>)"

section \<open>A worked session\<close>

text \<open>
  A file of ten bytes at \<open>/d/a.bin\<close>, a server that asks for slices of four bytes and
  accepts everything, and the object the constructor returns with default options.
\<close>

definition file10 :: "byte list" where
  "file10 = [0, 1, 2, 3, 4, 5, 6, 7, 8, 9]"

definition createOk :: "create_data api_response" where
  "createOk = ApiResponse 0 ''ok''
     \<lparr> cd_fileID = None, cd_reuse = False, cd_preuploadID = ''P1'', cd_sliceSize = 4 \<rparr>"

definition urlOk :: "url_data api_response" where
  "urlOk = ApiResponse 0 ''ok'' \<lparr> presignedURL = ''https://u'', isMultipart = False \<rparr>"

definition finishOk :: "finish_data api_response" where
  "finishOk = ApiResponse 0 ''ok''
     \<lparr> fd_asyncUpload = False, fd_fileID = ''X9'', fd_completed = True \<rparr>"

definition mergePending :: "merge_data api_response" where
  "mergePending = ApiResponse 0 ''ok'' \<lparr> md_completed = False, md_fileID = [] \<rparr>"

definition world10 :: env where
  "world10 =
     \<lparr> basename = (\<lambda>p. ''a.bin''),
       on_statSync = (\<lambda>p. Inr 10),
       on_readFile = (\<lambda>p. Inr file10),
       on_md5File = (\<lambda>p. Inr ''d41d''),
       on_create = Inr createOk,
       on_getUploadUrl = (\<lambda>pn k. Inr urlOk),
       on_put = (\<lambda>pn k. PutOk),
       on_uploadComplete = Inr finishOk,
       on_checkMerge = (\<lambda>n. Inr mergePending) \<rparr>"

definition noOptions :: user_options where
  "noOptions =
     \<lparr> u_concurrency = None, u_retryTimes = None, u_retryDelay = None, u_limitRate = None,
       u_duplicate = None, u_pollInterval = None, u_pollMaxTimes = None \<rparr>"

definition fresh :: "int \<Rightarrow> uploader" where
  "fresh sz =
     \<lparr> status = Pending,
       queue = \<lparr> q_waiting = [], q_running = [], q_isPaused = False \<rparr>,
       emitted = [EvProgress Init 0 sz None],
       effects = [],
       progress = [],
       chunkTasks = [],
       fsize = sz,
       opts = assignOptions noOptions,
       chunkSize = 4 * 1024 * 1024,
       filePath = ''/d/a.bin'',
       fname = ''a.bin'',
       token = ''tok'',
       parentFileID = ''0'',
       phase = NotStarted,
       result = None,
       target = None,
       preuploadID = [],
       fileID = None,
       totalChunks = 0,
       parts = [],
       listening = False,
       settled = False,
       awaited = None,
       errorListener = False \<rparr>"

section \<open>Notions used to state the properties\<close>

text \<open>Every merge check answers with code 0 and \<open>completed = false\<close>.\<close>

definition neverCompleted :: "env \<Rightarrow> bool" where
  "neverCompleted world =
     (\<forall>n. \<exists>msg d. on_checkMerge world n = Inr (ApiResponse 0 msg d) \<and> \<not> md_completed d)"

text \<open>\<open>n\<close> merge checks with a sleep between each two.\<close>

fun pollTrace :: "string \<Rightarrow> int \<Rightarrow> nat \<Rightarrow> effect list" where
  "pollTrace uploadId interval 0 = []"
| "pollTrace uploadId interval (Suc 0) = [DoCheckMerge uploadId]"
| "pollTrace uploadId interval (Suc (Suc n)) =
     DoCheckMerge uploadId # DoSleep interval # pollTrace uploadId interval (Suc n)"

fun sleepTotal :: "effect list \<Rightarrow> int" where
  "sleepTotal [] = 0"
| "sleepTotal (DoSleep ms # fxs) = ms + sleepTotal fxs"
| "sleepTotal (fx # fxs) = sleepTotal fxs"

fun checkCount :: "effect list \<Rightarrow> nat" where
  "checkCount [] = 0"
| "checkCount (DoCheckMerge u # fxs) = Suc (checkCount fxs)"
| "checkCount (fx # fxs) = checkCount fxs"

text \<open>The errors of the \<open>error\<close> events of a log.\<close>

fun errorEvents :: "event list \<Rightarrow> err list" where
  "errorEvents [] = []"
| "errorEvents (EvError e # evs) = e # errorEvents evs"
| "errorEvents (ev # evs) = errorEvents evs"

text \<open>
  What becomes of an exception \<open>e\<close> raised inside \<open>upload()\<close>, seen from outside. \<open>this\<close>
  is the session when the exception reaches the \<open>catch\<close> block, \<open>this1\<close> the session once
  \<open>upload()\<close> has settled. With status \<open>cancel\<close> the exception is swallowed. Otherwise
  \<open>upload()\<close> rejects with it; the \<open>error\<close> event and the status \<open>error\<close> need a listener
  of \<open>error\<close>.
\<close>

definition caught :: "err \<Rightarrow> uploader \<Rightarrow> uploader \<Rightarrow> bool" where
  "caught e this this1 =
     (if status this = Cancel
      then status this1 = Cancel \<and> result this1 = Some (Returned None)
           \<and> errorEvents (emitted this1) = errorEvents (emitted this)
      else if errorListener this
      then status this1 = Error \<and> result this1 = Some (Threw e)
           \<and> errorEvents (emitted this1) = errorEvents (emitted this) @ [e]
      else status this1 = status this \<and> result this1 = Some (Threw e)
           \<and> errorEvents (emitted this1) = errorEvents (emitted this))"

text \<open>A session with default options except for the number of polls.\<close>

definition polling :: "int \<Rightarrow> uploader" where
  "polling n = (fresh 10)\<lparr>opts := (opts (fresh 10))\<lparr>pollMaxTimes := n\<rparr>, preuploadID := ''P1''\<rparr>"

text \<open>A server that already holds the file: the create request answers with \<open>reuse\<close>.\<close>

definition reuseData :: create_data where
  "reuseData = \<lparr> cd_fileID = Some ''F1'', cd_reuse = True, cd_preuploadID = [], cd_sliceSize = 0 \<rparr>"

definition worldReuse :: env where
  "worldReuse = world10\<lparr>on_create := Inr (ApiResponse 0 ''ok'' reuseData)\<rparr>"

text \<open>A server whose finish request cannot be reached.\<close>

definition worldFinishDown :: env where
  "worldFinishDown = world10\<lparr>on_uploadComplete := Inl (TransportErr ''down'')\<rparr>"

definition terminal :: "status \<Rightarrow> bool" where
  "terminal st = (st = Completed \<or> st = Error \<or> st = Cancel)"





text \<open>The payloads of the \<open>completed\<close> events of a log.\<close>

fun completedInfos :: "event list \<Rightarrow> completed_info list" where
  "completedInfos [] = []"
| "completedInfos (EvCompleted info # evs) = info # completedInfos evs"
| "completedInfos (ev # evs) = completedInfos evs"


text \<open>
  A step that leaves the identifiers, the outcome, the phase and the \<open>completed\<close>
  events alone, and settles the promise of \<open>uploadChunks\<close> only through a listener.
\<close>

definition quiet :: "uploader \<Rightarrow> uploader \<Rightarrow> bool" where
  "quiet this this1 =
     (fileID this1 = fileID this \<and> preuploadID this1 = preuploadID this
      \<and> result this1 = result this \<and> phase this1 = phase this
      \<and> listening this1 = listening this
      \<and> completedInfos (emitted this1) = completedInfos (emitted this)
      \<and> (awaited this1 \<noteq> None \<longrightarrow> awaited this \<noteq> None \<or> listening this))"

text \<open>
  What one attempt of \<open>uploadChunk\<close> on a task yields while the task's controller is not
  aborted, as the transport decides it: the error of the first failing step, or success.
\<close>

definition attemptResult :: "env \<Rightarrow> UploadChunkTask \<Rightarrow> int \<Rightarrow> err + unit" where
  "attemptResult world task k =
     (case readChunk world (task_filePath task) (task_start task) (task_chunkSize task) of
        Inl e \<Rightarrow> Inl e
      | Inr bytes \<Rightarrow>
          (case requestBody GetUrlFailed (on_getUploadUrl world (task_chunk task + 1) k) of
             Inl e \<Rightarrow> Inl (GetUrlFailed e)
           | Inr u \<Rightarrow>
               (case on_put world (task_chunk task + 1) k of
                  PutFailed e \<Rightarrow> Inl e
                | PutOk \<Rightarrow> Inr ())))"

text \<open>The outside operations of one attempt: the read, the destination request, the transfer.\<close>

definition attemptEffects :: "env \<Rightarrow> UploadChunkTask \<Rightarrow> int \<Rightarrow> effect list" where
  "attemptEffects world task k =
     DoReadStream (task_filePath task) (task_start task) (task_start task + task_chunkSize task - 1)
     # (case readChunk world (task_filePath task) (task_start task) (task_chunkSize task) of
          Inl e \<Rightarrow> []
        | Inr bytes \<Rightarrow>
            DoGetUploadUrl (task_uploadId task) (task_chunk task + 1)
            # (case requestBody GetUrlFailed (on_getUploadUrl world (task_chunk task + 1) k) of
                 Inl e \<Rightarrow> []
               | Inr u \<Rightarrow> [DoPut (presignedURL u) bytes]))"

text \<open>
  The operations of \<open>m + 1\<close> attempts numbered from \<open>k\<close>, with a sleep of \<open>delay\<close> after each
  of the first \<open>m\<close>.
\<close>

fun retryTrace :: "env \<Rightarrow> UploadChunkTask \<Rightarrow> int \<Rightarrow> int \<Rightarrow> nat \<Rightarrow> effect list" where
  "retryTrace world task delay k 0 = attemptEffects world task k"
| "retryTrace world task delay k (Suc m) =
     attemptEffects world task k @ DoSleep delay # retryTrace world task delay (k + 1) m"

fun sleepCount :: "effect list \<Rightarrow> nat" where
  "sleepCount [] = 0"
| "sleepCount (DoSleep ms # fxs) = Suc (sleepCount fxs)"
| "sleepCount (fx # fxs) = sleepCount fxs"

text \<open>The attempts \<open>0, ..., n - 1\<close> on a task all fail, none by cancellation.\<close>

definition failsBefore :: "env \<Rightarrow> UploadChunkTask \<Rightarrow> int \<Rightarrow> bool" where
  "failsBefore world task n =
     list_all (\<lambda>k. case attemptResult world task k of Inl e \<Rightarrow> \<not> isCancel e | Inr _ \<Rightarrow> False)
       [0..n - 1]"

text \<open>
  A transport on which the first two transfers of part 2 fail, and the second task of
  the ten-byte file.
\<close>

definition worldFlaky :: env where
  "worldFlaky = world10\<lparr>on_put :=
     (\<lambda>pn k. if pn = 2 \<and> k < 2 then PutFailed (TransportErr ''reset'') else PutOk)\<rparr>"


text \<open>A file of sixteen bytes (four slices) and an empty file, on the same server.\<close>

definition world16 :: env where
  "world16 = world10\<lparr>on_statSync := (\<lambda>p. Inr 16),
     on_readFile := (\<lambda>p. Inr (file10 @ [10, 11, 12, 13, 14, 15]))\<rparr>"

definition worldEmpty :: env where
  "worldEmpty = world10\<lparr>on_statSync := (\<lambda>p. Inr 0), on_readFile := (\<lambda>p. Inr [])\<rparr>"

text \<open>
  A chunk task, read without its status, and the part of a session that an attempt to
  upload a chunk leaves alone: \<open>uploadChunk\<close> writes the logs (operations, events, progress)
  and the status of tasks, nothing else.
\<close>

definition unstatus :: "(int \<times> UploadChunkTask) list \<Rightarrow> (int \<times> UploadChunkTask) list" where
  "unstatus ts = map (\<lambda>(k, t). (k, t\<lparr>task_status := TaskPending\<rparr>)) ts"

definition logsOnly :: "uploader \<Rightarrow> uploader \<Rightarrow> bool" where
  "logsOnly this this1 =
     (this1\<lparr>effects := [], emitted := [], progress := [], chunkTasks := []\<rparr>
      = this\<lparr>effects := [], emitted := [], progress := [], chunkTasks := []\<rparr>
      \<and> unstatus (chunkTasks this1) = unstatus (chunkTasks this))"

text \<open>
  A task succeeds within a budget of retries when some attempt \<open>m \<le> budget\<close> succeeds and
  all the attempts before it fail otherwise than by cancellation. A task of the table is
  in order when it is filed under its part number, its controller is not aborted and it
  succeeds within the budget.
\<close>

definition succeedsWithin :: "env \<Rightarrow> int \<Rightarrow> UploadChunkTask \<Rightarrow> bool" where
  "succeedsWithin world budget task =
     list_ex (\<lambda>m. failsBefore world task (int m) \<and> attemptResult world task (int m) = Inr ())
       [0 ..< nat (budget + 1)]"




text \<open>
  The actions that settle a chunk upload in flight, and the actions of the transport on
  the chunk uploads: settling one, or reporting the progress of one. \<open>settlements\<close>
  counts the former.
\<close>

fun isChunkSettle :: "action \<Rightarrow> bool" where
  "isChunkSettle (ChunkSettle ref) = True"
| "isChunkSettle _ = False"


definition settlements :: "action list \<Rightarrow> nat" where
  "settlements acts = length (filter isChunkSettle acts)"



text \<open>
  A world in which the transfer of part 2 fails at every attempt, and a session whose
  only task, part 2 of the 10-byte file, is in flight. Nobody listens to \<open>error\<close> on it.
\<close>

definition worldBroken :: env where
  "worldBroken = world10\<lparr>on_put :=
     (\<lambda>pn k. if pn = 2 then PutFailed (TransportErr ''reset'') else PutOk)\<rparr>"



section \<open>Properties of the chunk plan\<close>

lemma less_chunks_iff:
  assumes "0 < sl"
  shows "i < \<lceil>real_of_int sz / real_of_int sl\<rceil> \<longleftrightarrow> i * sl < sz"
proof -
  have "i < \<lceil>real_of_int sz / real_of_int sl\<rceil> \<longleftrightarrow> real_of_int i < real_of_int sz / real_of_int sl"
    by (rule less_ceiling_iff)
  also have "\<dots> \<longleftrightarrow> real_of_int i * real_of_int sl < real_of_int sz"
    using assms by (simp add: pos_less_divide_eq)
  also have "\<dots> \<longleftrightarrow> i * sl < sz"
    by (metis of_int_less_iff of_int_mult)
  finally show ?thesis .
qed

lemma planFrom_length:
  "length (planFrom this u cnt i) = nat (cnt - i)"
proof (induction this u cnt i rule: planFrom.induct)
  case (1 this u cnt i)
  show ?case
  proof (cases "i < cnt")
    case True
    with 1 have "length (planFrom this u cnt (i + 1)) = nat (cnt - (i + 1))" by simp
    with True show ?thesis by (subst planFrom.simps) (simp add: nat_diff_distrib)
  next
    case False
    then show ?thesis by (subst planFrom.simps) simp
  qed
qed

lemma planFrom_numbered:
  "numbered (planFrom this u cnt i) (i + 1)"
proof (induction this u cnt i rule: planFrom.induct)
  case (1 this u cnt i)
  show ?case
  proof (cases "i < cnt")
    case True
    with 1 have "numbered (planFrom this u cnt (i + 1)) (i + 1 + 1)" by simp
    with True show ?thesis
      by (subst planFrom.simps) (simp add: partNumber_def newTask_def Let_def)
  next
    case False
    then show ?thesis by (subst planFrom.simps) simp
  qed
qed

lemma planFrom_tiles:
  "0 < chunkSize this \<Longrightarrow> chunkCount (fsize this) (chunkSize this) = Some cnt \<Longrightarrow>
   i \<le> cnt \<Longrightarrow>
   tiles (ranges (planFrom this u cnt i)) (min (i * chunkSize this) (fsize this)) (fsize this)"
proof (induction this u cnt i rule: planFrom.induct)
  case (1 this u cnt i)
  note pos = \<open>0 < chunkSize this\<close>
  have tot: "cnt = \<lceil>real_of_int (fsize this) / real_of_int (chunkSize this)\<rceil>"
    using "1.prems" by (simp add: chunkCount_def split: if_splits)
  show ?case
  proof (cases "i < cnt")
    case True
    then have lt: "i * chunkSize this < fsize this"
      using less_chunks_iff [OF pos] tot by simp
    have ih: "tiles (ranges (planFrom this u cnt (i + 1)))
        (min ((i + 1) * chunkSize this) (fsize this)) (fsize this)"
      using 1 True by simp
    have e: "i * chunkSize this + (min (i * chunkSize this + chunkSize this) (fsize this) - i * chunkSize this)
        = min ((i + 1) * chunkSize this) (fsize this)"
      by (simp add: algebra_simps)
    show ?thesis
      using True lt ih pos
      by (subst planFrom.simps) (simp add: ranges_def newTask_def Let_def e)
  next
    case False
    with "1.prems" have "i = cnt" by simp
    then have "\<not> i * chunkSize this < fsize this"
      using less_chunks_iff [OF pos, of i "fsize this"] tot by simp
    with False show ?thesis
      by (subst planFrom.simps) (simp add: ranges_def)
  qed
qed




lemma ceil_div_cases:
  assumes "0 < (sl::int)"
  shows "\<lceil>real_of_int sz / real_of_int sl\<rceil> = (if sz mod sl = 0 then sz div sl else sz div sl + 1)"
proof -
  have "\<lceil>real_of_int sz / real_of_int sl\<rceil> = - (- sz div sl)"
    by (rule ceiling_divide_eq_div)
  also have "\<dots> = (if sz mod sl = 0 then sz div sl else sz div sl + 1)"
    using assms by (simp add: zdiv_zminus1_eq_if)
  finally show ?thesis .
qed

lemma last_chunk_length:
  assumes "0 < (sl::int)"
  shows "min ((\<lceil>real_of_int sz / real_of_int sl\<rceil> - 1) * sl + sl) sz
           - (\<lceil>real_of_int sz / real_of_int sl\<rceil> - 1) * sl
         = (if sz mod sl = 0 then sl else sz mod sl)"
proof (cases "sz mod sl = 0")
  case True
  then have c: "\<lceil>real_of_int sz / real_of_int sl\<rceil> = sz div sl"
    using ceil_div_cases [OF assms] by simp
  have "sz div sl * sl = sz" using True by (simp add: mod_eq_0_iff_dvd)
  then show ?thesis using True c by (simp add: algebra_simps)
next
  case False
  then have c: "\<lceil>real_of_int sz / real_of_int sl\<rceil> = sz div sl + 1"
    using ceil_div_cases [OF assms] by simp
  have d: "sz div sl * sl + sz mod sl = sz" by simp
  have "sz mod sl < sl" using assms by simp
  then have "sz < sz div sl * sl + sl" using d by linarith
  then show ?thesis using False c d by (simp add: algebra_simps min_def)
qed

lemma planFrom_last:
  "i < cnt \<Longrightarrow> last (planFrom this u cnt i) = newTask this u cnt (cnt - 1)"
proof (induction this u cnt i rule: planFrom.induct)
  case (1 this u cnt i)
  show ?case
  proof (cases "i + 1 < cnt")
    case True
    with 1 have ih: "last (planFrom this u cnt (i + 1)) = newTask this u cnt (cnt - 1)" by simp
    have ne: "planFrom this u cnt (i + 1) \<noteq> []"
      using True by (subst planFrom.simps) simp
    show ?thesis using "1.prems" ih ne by (subst planFrom.simps) simp
  next
    case False
    with "1.prems" have "i = cnt - 1" by simp
    moreover have "planFrom this u cnt (i + 1) = []"
      using False by (subst planFrom.simps) simp
    ultimately show ?thesis using "1.prems" by (subst planFrom.simps) simp
  qed
qed

text \<open>
  C1. For a size \<open>\<ge> 0\<close> and a slice size \<open>> 0\<close>, the tasks that \<open>upload\<close> and
  \<open>uploadChunks\<close> plan are \<open>ceil(size / sliceSize)\<close> many, carry the part numbers
  1, 2, ... in order, their (start, length) ranges tile \<open>[0, size)\<close> (each non-empty,
  each beginning where the one before ends), and the last length is \<open>size mod sliceSize\<close>,
  or \<open>sliceSize\<close> when that remainder is 0. For size 0 there is no task.
\<close>

theorem chunk_plan_tiles_file:
  assumes "0 \<le> fsize this" and "0 < chunkSize this"
  shows "\<exists>plan. chunkPlan this uploadId = Some plan
    \<and> int (length plan) = \<lceil>real_of_int (fsize this) / real_of_int (chunkSize this)\<rceil>
    \<and> numbered plan 1
    \<and> tiles (ranges plan) 0 (fsize this)
    \<and> lastLength plan =
        (if fsize this = 0 then None
         else Some (if fsize this mod chunkSize this = 0 then chunkSize this
                    else fsize this mod chunkSize this))"
proof -
  define cnt where "cnt = \<lceil>real_of_int (fsize this) / real_of_int (chunkSize this)\<rceil>"
  define plan where "plan = planFrom this uploadId cnt 0"
  have cc: "chunkCount (fsize this) (chunkSize this) = Some cnt"
    using assms(2) by (simp add: chunkCount_def cnt_def)
  have "0 \<le> real_of_int (fsize this) / real_of_int (chunkSize this)"
    using assms by simp
  then have nonneg: "0 \<le> cnt"
    unfolding cnt_def by (simp add: le_ceiling_iff)
  have p: "chunkPlan this uploadId = Some plan"
    by (simp add: chunkPlan_def cc plan_def)
  have len: "int (length plan) = cnt"
    using nonneg by (simp add: plan_def planFrom_length)
  have num: "numbered plan 1"
    using planFrom_numbered [of this uploadId cnt 0] by (simp add: plan_def)
  have til: "tiles (ranges plan) 0 (fsize this)"
    using planFrom_tiles [OF assms(2) cc, of 0 uploadId] nonneg assms(1)
    by (simp add: plan_def)
  have lst: "lastLength plan =
      (if fsize this = 0 then None
       else Some (if fsize this mod chunkSize this = 0 then chunkSize this
                  else fsize this mod chunkSize this))"
  proof (cases "fsize this = 0")
    case True
    then have "cnt = 0" by (simp add: cnt_def)
    then have "plan = []" by (simp add: plan_def planFrom.simps)
    with True show ?thesis by (simp add: lastLength_def)
  next
    case False
    with assms(1) have "0 < fsize this" by simp
    then have "0 * chunkSize this < fsize this" by simp
    then have pos: "0 < cnt"
      using less_chunks_iff [OF assms(2), of 0 "fsize this"] by (simp add: cnt_def)
    then have ne: "plan \<noteq> []"
      by (simp add: plan_def planFrom.simps [of this uploadId cnt 0])
    have "last plan = newTask this uploadId cnt (cnt - 1)"
      using planFrom_last [OF pos] by (simp add: plan_def)
    then have "task_chunkSize (last plan) =
        (if fsize this mod chunkSize this = 0 then chunkSize this
         else fsize this mod chunkSize this)"
      using last_chunk_length [OF assms(2), of "fsize this"]
      by (simp add: newTask_def Let_def cnt_def)
    with ne False show ?thesis by (simp add: lastLength_def)
  qed
  from p len num til lst show ?thesis
    unfolding cnt_def by blast
qed

theorem chunk_plan_tiles_file_witness:
  "0 \<le> fsize ((fresh 10)\<lparr>chunkSize := 4\<rparr>) \<and> 0 < chunkSize ((fresh 10)\<lparr>chunkSize := 4\<rparr>)
   \<and> (\<exists>plan. chunkPlan ((fresh 10)\<lparr>chunkSize := 4\<rparr>) ''P1'' = Some plan
        \<and> int (length plan) = 3 \<and> numbered plan 1 \<and> tiles (ranges plan) 0 10
        \<and> lastLength plan = Some 2)"
  using chunk_plan_tiles_file [of "(fresh 10)\<lparr>chunkSize := 4\<rparr>" "''P1''"]
  by (simp add: fresh_def)

section \<open>Properties of the chunk reader\<close>

lemma concat_bursts: "0 < hw \<Longrightarrow> concat (bursts hw xs) = xs"
proof (induction hw xs rule: bursts.induct)
  case (1 hw xs)
  then show ?case by (subst bursts.simps) auto
qed

lemma bursts_bounded: "b \<in> set (bursts hw xs) \<Longrightarrow> length b \<le> hw"
proof (induction hw xs rule: bursts.induct)
  case (1 hw xs)
  from 1(2) have "hw \<noteq> 0 \<and> xs \<noteq> [] \<and> (b = take hw xs \<or> b \<in> set (bursts hw (drop hw xs)))"
    by (subst (asm) bursts.simps) (auto split: if_splits)
  with 1(1) show ?case by auto
qed

lemma bufferConcat_exact: "bufferConcat chunks (sum_list (map length chunks)) = concat chunks"
  by (simp add: bufferConcat_def length_concat)

lemma readChunk_eq:
  "readChunk world path start len =
     (if start < 0 \<or> len \<le> 0 then Inl RangeErr
      else case on_readFile world path of
             Inl e \<Rightarrow> Inl (ReadFailed e)
           | Inr content \<Rightarrow> Inr (take (nat len) (drop (nat start) content)))"
proof (cases "start < 0 \<or> len \<le> 0")
  case True
  then show ?thesis by (auto simp: readChunk_def Let_def)
next
  case False
  then have hw: "0 < nat (min len 65536)" by simp
  from False have g: "\<not> (start < 0 \<or> start + len - 1 < 0 \<or> start + len - 1 < start)" by auto
  have "bufferConcat (bursts (nat (min len 65536)) xs)
          (sum_list (map length (bursts (nat (min len 65536)) xs))) = xs" for xs :: "byte list"
    using bufferConcat_exact [of "bursts (nat (min len 65536)) xs"] concat_bursts [OF hw, of xs]
    by simp
  then show ?thesis
    using False g by (simp add: readChunk_def Let_def split: sum.splits)
qed

text \<open>
  C8, as stated, fails: of a file shorter than \<open>offset + length\<close> the reader returns the
  bytes that exist and raises nothing. Of the ten-byte file, offset 8 and length 4 give
  two bytes.
\<close>

theorem readChunk_short_file_counterexample:
  "on_readFile world10 ''/d/a.bin'' = Inr file10 \<and> int (length file10) < 8 + 4
   \<and> readChunk world10 ''/d/a.bin'' 8 4 = Inr [8, 9]"
  by (simp add: readChunk_eq world10_def file10_def)

text \<open>
  C8, amended. For an offset \<open>\<ge> 0\<close> and a length \<open>> 0\<close>, \<open>readChunk\<close> fails with a read
  error when the file cannot be opened or read, and otherwise returns, as one buffer,
  the bytes of the file from \<open>offset\<close> on, at most \<open>length\<close> of them: exactly \<open>length\<close>
  bytes when the file holds \<open>offset + length\<close> bytes or more, the shorter rest of the
  file when it does not. For a negative offset or a length \<open>\<le> 0\<close> it fails with a range
  error.
\<close>

theorem readChunk_reads_what_exists:
  "readChunk world path start len =
     (if start < 0 \<or> len \<le> 0 then Inl RangeErr
      else case on_readFile world path of
             Inl e \<Rightarrow> Inl (ReadFailed e)
           | Inr content \<Rightarrow> Inr (take (nat len) (drop (nat start) content)))
   \<and> (\<forall>content. on_readFile world path = Inr content \<and> 0 \<le> start \<and> 0 < len
          \<and> start + len \<le> int (length content) \<longrightarrow>
        (\<exists>bytes. readChunk world path start len = Inr bytes \<and> int (length bytes) = len))
   \<and> (\<forall>content. on_readFile world path = Inr content \<and> 0 \<le> start \<and> 0 < len
          \<and> int (length content) < start + len \<longrightarrow>
        (\<exists>bytes. readChunk world path start len = Inr bytes
           \<and> int (length bytes) = max 0 (int (length content) - start)))"
  by (auto simp: readChunk_eq)

theorem readChunk_reads_what_exists_witness:
  "readChunk world10 ''/d/a.bin'' 4 4 = Inr [4, 5, 6, 7]
   \<and> (\<exists>bytes. readChunk world10 ''/d/a.bin'' 4 4 = Inr bytes \<and> int (length bytes) = 4)
   \<and> (\<exists>bytes. readChunk world10 ''/d/a.bin'' 8 4 = Inr bytes \<and> int (length bytes) = 2)
   \<and> readChunk (world10\<lparr>on_readFile := (\<lambda>p. Inl (FsErr ''ENOENT''))\<rparr>) ''/d/a.bin'' 4 4
       = Inl (ReadFailed (FsErr ''ENOENT''))"
  using readChunk_reads_what_exists [of world10 "''/d/a.bin''" 4 4]
    readChunk_reads_what_exists [of world10 "''/d/a.bin''" 8 4]
    readChunk_reads_what_exists
      [of "world10\<lparr>on_readFile := (\<lambda>p. Inl (FsErr ''ENOENT''))\<rparr>" "''/d/a.bin''" 4 4]
  by (simp add: world10_def file10_def)

section \<open>Properties of the completion poller\<close>

lemma errorEvents_append [simp]:
  "errorEvents (xs @ ys) = errorEvents xs @ errorEvents ys"
  by (induction xs rule: errorEvents.induct) simp_all

lemma checkCount_pollTrace: "checkCount (pollTrace u iv n) = n"
  by (induction u iv n rule: pollTrace.induct) simp_all

lemma sleepCount_pollTrace: "sleepCount (pollTrace u iv n) = n - 1"
  by (induction u iv n rule: pollTrace.induct) simp_all

lemma sleepTotal_pollTrace:
  "0 < n \<Longrightarrow> sleepTotal (pollTrace u iv n) = iv * (int n - 1)"
  by (induction u iv n rule: pollTrace.induct) (simp_all add: algebra_simps)

lemma pollLoop_never:
  assumes "neverCompleted world"
  shows "k < mx \<Longrightarrow> nat (mx - k) = n \<Longrightarrow>
    \<exists>this'. pollLoop world u mx iv this k = (this', Inl (MergeCheckFailed PollTimeout))
      \<and> effects this' = effects this @ pollTrace u iv n
      \<and> status this' = status this \<and> errorListener this' = errorListener this
      \<and> errorEvents (emitted this') = errorEvents (emitted this)"
proof (induction n arbitrary: this k)
  case 0
  then show ?case by simp
next
  case (Suc n)
  from assms obtain msg d where r: "on_checkMerge world (k + 1) = Inr (ApiResponse 0 msg d)"
    and nc: "\<not> md_completed d"
    unfolding neverCompleted_def by blast
  show ?case
  proof (cases "k + 1 \<ge> mx")
    case True
    with Suc.prems have "n = 0" by simp
    with True Suc.prems r nc show ?thesis
      by (subst pollLoop.simps)
         (simp add: checkMergeStatus_def requestBody_def perform_def)
  next
    case False
    define this2 where "this2 = perform (DoSleep iv)
      (emit (EvProgress Merging (fsize this) (fsize this) (Some (k + 1)))
         (perform (DoCheckMerge u) this))"
    from False Suc.prems have "k + 1 < mx" "nat (mx - (k + 1)) = n" by simp_all
    from Suc.IH [OF this, of this2] obtain this' where
      ih: "pollLoop world u mx iv this2 (k + 1) = (this', Inl (MergeCheckFailed PollTimeout))"
        "effects this' = effects this2 @ pollTrace u iv n" "status this' = status this2"
        "errorListener this' = errorListener this2"
        "errorEvents (emitted this') = errorEvents (emitted this2)"
      by blast
    from \<open>k + 1 < mx\<close> \<open>nat (mx - (k + 1)) = n\<close> obtain n' where n': "n = Suc n'"
      by (cases n) auto
    have "pollLoop world u mx iv this k = pollLoop world u mx iv this2 (k + 1)"
      using False Suc.prems r nc
      by (subst pollLoop.simps)
         (simp add: checkMergeStatus_def requestBody_def perform_def emit_def this2_def)
    with ih n' show ?thesis
      by (simp add: this2_def perform_def emit_def)
  qed
qed

lemma pollLoop_no_budget:
  "mx \<le> k \<Longrightarrow> pollLoop world u mx iv this k = (this, Inr ())"
  by (subst pollLoop.simps) simp

lemma neverCompleted_world10: "neverCompleted world10"
  by (simp add: neverCompleted_def world10_def mergePending_def)

text \<open>
  C3, as stated, fails for \<open>pollMaxTimes = 0\<close>: the loop is not entered, no check is
  made, \<open>pollUploadStatus\<close> returns normally and the session completes.
\<close>

theorem poll_zero_budget_counterexample:
  "neverCompleted world10
   \<and> pollUploadStatus world10 (polling 0) ''P1'' = (polling 0, Inr ())
   \<and> status (afterPoll world10 (polling 0)) = Completed"
  by (simp add: neverCompleted_world10 pollUploadStatus_def pollLoop_no_budget afterPoll_def
        polling_def uploadCompleted_def emit_def Let_def)

text \<open>
  C3, amended. When every merge check answers \<open>completed = false\<close> and
  \<open>pollMaxTimes \<ge> 1\<close>, the poller makes exactly \<open>pollMaxTimes\<close> checks with a sleep of
  \<open>pollInterval\<close> between each two: \<open>pollMaxTimes - 1\<close> sleeps,
  \<open>pollInterval * (pollMaxTimes - 1)\<close> in all, which is at most
  \<open>pollInterval * pollMaxTimes\<close> when the interval is not negative. It then throws the
  timeout error, wrapped as a failed merge check. With status \<open>cancel\<close> the error is
  swallowed and \<open>upload()\<close> resolves to \<open>undefined\<close>; otherwise \<open>upload()\<close> rejects with
  it, and the session emits \<open>error\<close> and takes the status \<open>error\<close> when a listener of
  \<open>error\<close> is registered (\<open>caught\<close> also says what happens when none is). With
  \<open>pollMaxTimes \<le> 0\<close> the poller makes no check, does not sleep and returns normally,
  and the session completes.
\<close>

theorem poll_bounded:
  assumes "neverCompleted world"
  shows "(1 \<le> pollMaxTimes (opts this) \<longrightarrow>
      (\<exists>this'. pollUploadStatus world this (preuploadID this)
                 = (this', Inl (MergeCheckFailed PollTimeout))
         \<and> effects this' = effects this
              @ pollTrace (preuploadID this) (pollInterval (opts this)) (nat (pollMaxTimes (opts this))))
      \<and> int (checkCount (pollTrace (preuploadID this) (pollInterval (opts this))
                (nat (pollMaxTimes (opts this))))) = pollMaxTimes (opts this)
      \<and> int (sleepCount (pollTrace (preuploadID this) (pollInterval (opts this))
                (nat (pollMaxTimes (opts this))))) = pollMaxTimes (opts this) - 1
      \<and> sleepTotal (pollTrace (preuploadID this) (pollInterval (opts this))
                (nat (pollMaxTimes (opts this))))
          = pollInterval (opts this) * (pollMaxTimes (opts this) - 1)
      \<and> (0 \<le> pollInterval (opts this) \<longrightarrow>
           sleepTotal (pollTrace (preuploadID this) (pollInterval (opts this))
                (nat (pollMaxTimes (opts this))))
             \<le> pollInterval (opts this) * pollMaxTimes (opts this))
      \<and> caught (MergeCheckFailed PollTimeout) this (afterPoll world this))
    \<and> (pollMaxTimes (opts this) \<le> 0 \<longrightarrow>
         pollUploadStatus world this (preuploadID this) = (this, Inr ())
         \<and> effects (afterPoll world this) = effects this
         \<and> status (afterPoll world this) = Completed
         \<and> result (afterPoll world this) = Some (Returned (Some
              \<lparr>fileId = orElse (fileID this) (preuploadID this),
               filename = orElse (target this) (fname this)\<rparr>)))"
proof (intro conjI impI)
  assume mx: "1 \<le> pollMaxTimes (opts this)"
  from pollLoop_never [OF assms, of 0 "pollMaxTimes (opts this)" "nat (pollMaxTimes (opts this))"
      "preuploadID this" "pollInterval (opts this)" this] mx
  obtain this' where
    p: "pollUploadStatus world this (preuploadID this) = (this', Inl (MergeCheckFailed PollTimeout))"
      "effects this' = effects this
         @ pollTrace (preuploadID this) (pollInterval (opts this)) (nat (pollMaxTimes (opts this)))"
      "status this' = status this" "errorListener this' = errorListener this"
      "errorEvents (emitted this') = errorEvents (emitted this)"
    by (auto simp: pollUploadStatus_def)
  from p(1,2) show "\<exists>this'. pollUploadStatus world this (preuploadID this)
                 = (this', Inl (MergeCheckFailed PollTimeout))
         \<and> effects this' = effects this
              @ pollTrace (preuploadID this) (pollInterval (opts this)) (nat (pollMaxTimes (opts this)))"
    by blast
  from mx show "int (checkCount (pollTrace (preuploadID this) (pollInterval (opts this))
                (nat (pollMaxTimes (opts this))))) = pollMaxTimes (opts this)"
    by (simp add: checkCount_pollTrace)
  from mx show "int (sleepCount (pollTrace (preuploadID this) (pollInterval (opts this))
                (nat (pollMaxTimes (opts this))))) = pollMaxTimes (opts this) - 1"
    by (simp add: sleepCount_pollTrace)
  from mx show st: "sleepTotal (pollTrace (preuploadID this) (pollInterval (opts this))
                (nat (pollMaxTimes (opts this))))
          = pollInterval (opts this) * (pollMaxTimes (opts this) - 1)"
    by (simp add: sleepTotal_pollTrace)
  {
    assume "0 \<le> pollInterval (opts this)"
    then have "pollInterval (opts this) * (pollMaxTimes (opts this) - 1)
             \<le> pollInterval (opts this) * pollMaxTimes (opts this)"
      by (simp add: mult_left_mono)
    with st show "sleepTotal (pollTrace (preuploadID this) (pollInterval (opts this))
                (nat (pollMaxTimes (opts this))))
             \<le> pollInterval (opts this) * pollMaxTimes (opts this)"
      by simp
  }
  from p show "caught (MergeCheckFailed PollTimeout) this (afterPoll world this)"
    by (simp add: caught_def afterPoll_def uploadCatch_def emitError_def emit_def)
next
  assume "pollMaxTimes (opts this) \<le> 0"
  then show "pollUploadStatus world this (preuploadID this) = (this, Inr ())"
    by (simp add: pollUploadStatus_def pollLoop_no_budget)
next
  assume "pollMaxTimes (opts this) \<le> 0"
  then show "effects (afterPoll world this) = effects this"
    by (simp add: afterPoll_def pollUploadStatus_def pollLoop_no_budget uploadCompleted_def
          emit_def Let_def)
next
  assume "pollMaxTimes (opts this) \<le> 0"
  then show "status (afterPoll world this) = Completed"
    by (simp add: afterPoll_def pollUploadStatus_def pollLoop_no_budget uploadCompleted_def
          emit_def Let_def)
next
  assume "pollMaxTimes (opts this) \<le> 0"
  then show "result (afterPoll world this) = Some (Returned (Some
              \<lparr>fileId = orElse (fileID this) (preuploadID this),
               filename = orElse (target this) (fname this)\<rparr>))"
    by (simp add: afterPoll_def pollUploadStatus_def pollLoop_no_budget uploadCompleted_def
          emit_def Let_def)
qed

theorem poll_bounded_witness:
  "neverCompleted world10
   \<and> snd (pollUploadStatus world10 (polling 3) (preuploadID (polling 3)))
       = Inl (MergeCheckFailed PollTimeout)
   \<and> effects (fst (pollUploadStatus world10 (polling 3) (preuploadID (polling 3))))
       = [DoCheckMerge ''P1'', DoSleep 2000, DoCheckMerge ''P1'', DoSleep 2000, DoCheckMerge ''P1'']
   \<and> status (afterPoll world10 (polling 3)) = Pending
   \<and> result (afterPoll world10 (polling 3)) = Some (Threw (MergeCheckFailed PollTimeout))
   \<and> errorEvents (emitted (afterPoll world10 (polling 3))) = []
   \<and> status (afterPoll world10 ((polling 3)\<lparr>errorListener := True\<rparr>)) = Error
   \<and> result (afterPoll world10 ((polling 3)\<lparr>errorListener := True\<rparr>))
       = Some (Threw (MergeCheckFailed PollTimeout))
   \<and> errorEvents (emitted (afterPoll world10 ((polling 3)\<lparr>errorListener := True\<rparr>)))
       = [MergeCheckFailed PollTimeout]
   \<and> status (afterPoll world10 ((polling 3)\<lparr>status := Cancel\<rparr>)) = Cancel
   \<and> result (afterPoll world10 ((polling 3)\<lparr>status := Cancel\<rparr>)) = Some (Returned None)
   \<and> pollUploadStatus world10 (polling 0) (preuploadID (polling 0)) = (polling 0, Inr ())
   \<and> status (afterPoll world10 (polling 0)) = Completed
   \<and> result (afterPoll world10 (polling 0))
       = Some (Returned (Some \<lparr>fileId = ''P1'', filename = ''a.bin''\<rparr>))"
  using poll_bounded [OF neverCompleted_world10, of "polling 3"]
    poll_bounded [OF neverCompleted_world10, of "(polling 3)\<lparr>errorListener := True\<rparr>"]
    poll_bounded [OF neverCompleted_world10, of "(polling 3)\<lparr>status := Cancel\<rparr>"]
    poll_bounded [OF neverCompleted_world10, of "polling 0"]
  by (auto simp: neverCompleted_world10 polling_def fresh_def assignOptions_def noOptions_def
        pick_def eval_nat_numeral caught_def orElse_def)

section \<open>Properties of sessions\<close>


lemma newUploader_fields:
  assumes "newUploader world path tok parent given = Inr this0"
  shows "phase this0 = NotStarted" "emitted this0 = [EvProgress Init 0 (fsize this0) None]"
    "effects this0 = []" "fname this0 = basename world path" "filePath this0 = path"
    "parentFileID this0 = pick parent ''0''" "\<not> listening this0" "awaited this0 = None"
    "q_waiting (queue this0) = []" "q_running (queue this0) = []" "chunkTasks this0 = []"
    "result this0 = None" "status this0 = Pending"
  using assms
  by (auto simp: newUploader_def Let_def split: if_splits sum.splits)







text \<open>
  C2, as stated, fails. \<open>cancel()\<close> has no guard: on a completed session it sets the
  status to \<open>cancel\<close>, and called twice it emits two \<open>cancel\<close> events. \<open>upload()\<close> called
  on a cancelled session sets the status to \<open>running\<close>, and an \<open>upload()\<close> whose finish
  request answers after a \<open>cancel()\<close> ends in \<open>completed\<close>.
\<close>

theorem terminal_status_counterexample:
  "map_option status (run worldReuse (fresh 10) [Upload None, Settle]) = Some Completed
   \<and> map_option status (run worldReuse (fresh 10) [Upload None, Settle, CancelCall]) = Some Cancel
   \<and> map_option (\<lambda>s. count_list (emitted s) EvCancel)
        (run world10 (fresh 10) [Upload None, CancelCall, CancelCall]) = Some 2
   \<and> map_option status (run world10 (fresh 10) [CancelCall]) = Some Cancel
   \<and> map_option status (run world10 (fresh 10) [CancelCall, Upload None]) = Some Running
   \<and> map_option status (run world10 (fresh 10)
        [Upload None, Settle, ChunkSettle 1, ChunkSettle 2, ChunkSettle 3, CancelCall])
       = Some Cancel
   \<and> map_option status (run world10 (fresh 10)
        [Upload None, Settle, ChunkSettle 1, ChunkSettle 2, ChunkSettle 3, CancelCall, Settle])
       = Some Completed"
  by code_simp

text \<open>
  C2, amended. On a session whose status is \<open>completed\<close>, \<open>error\<close> or \<open>cancel\<close>, \<open>pause()\<close>
  and \<open>resume()\<close> change nothing at all; \<open>cancel()\<close> on a session in status \<open>cancel\<close>
  leaves the status \<open>cancel\<close>.
\<close>

theorem pause_resume_keep_terminal:
  assumes "terminal (status this)" and "awaited this = None"
  shows "step world this PauseCall = Some this \<and> step world this ResumeCall = Some this
    \<and> (status this = Cancel \<longrightarrow>
         (\<exists>this1. step world this CancelCall = Some this1 \<and> status this1 = Cancel))"
  using assms
  by (auto simp: terminal_def pause_def resume_def cancel_def taskClear_def emit_def microtasks_def)

theorem pause_resume_keep_terminal_witness:
  "terminal (status (cancel (fresh 10))) \<and> awaited (cancel (fresh 10)) = None
   \<and> status (cancel (fresh 10)) = Cancel
   \<and> step world10 (cancel (fresh 10)) PauseCall = Some (cancel (fresh 10))
   \<and> step world10 (cancel (fresh 10)) ResumeCall = Some (cancel (fresh 10))
   \<and> (\<exists>this1. step world10 (cancel (fresh 10)) CancelCall = Some this1 \<and> status this1 = Cancel)"
proof -
  have h: "terminal (status (cancel (fresh 10)))" "awaited (cancel (fresh 10)) = None"
    "status (cancel (fresh 10)) = Cancel"
    by (simp_all add: terminal_def cancel_def taskClear_def emit_def fresh_def)
  from pause_resume_keep_terminal [OF h(1,2), of world10] h show ?thesis
    by blast
qed

section \<open>Where the file id comes from\<close>

lemma completedInfos_append [simp]:
  "completedInfos (xs @ ys) = completedInfos xs @ completedInfos ys"
  by (induction xs rule: completedInfos.induct) simp_all


lemma quiet_trans: "quiet a b \<Longrightarrow> quiet b c \<Longrightarrow> quiet a c"
  by (auto simp: quiet_def)



























































section \<open>Properties of the chunk uploader\<close>

lemma attemptResult_status [simp]:
  "attemptResult world (task\<lparr>task_status := st\<rparr>) k = attemptResult world task k"
  by (simp add: attemptResult_def cong: sum.case_cong put_result.case_cong)

lemma attemptEffects_status [simp]:
  "attemptEffects world (task\<lparr>task_status := st\<rparr>) k = attemptEffects world task k"
  by (simp add: attemptEffects_def cong: sum.case_cong)

lemma retryTrace_status [simp]:
  "retryTrace world (task\<lparr>task_status := st\<rparr>) delay k m = retryTrace world task delay k m"
  by (induction m arbitrary: k) simp_all








lemma sleepCount_append [simp]: "sleepCount (xs @ ys) = sleepCount xs + sleepCount ys"
  by (induction xs rule: sleepCount.induct) simp_all

lemma sleepTotal_append [simp]: "sleepTotal (xs @ ys) = sleepTotal xs + sleepTotal ys"
  by (induction xs rule: sleepTotal.induct) simp_all

lemma attemptEffects_no_sleep [simp]:
  "sleepCount (attemptEffects world task k) = 0" "sleepTotal (attemptEffects world task k) = 0"
  by (simp_all add: attemptEffects_def split: sum.splits)







lemma flaky_session_debug:
  "map_option (\<lambda>s. filter (\<lambda>ev. case ev of EvDebug d \<Rightarrow> True | _ \<Rightarrow> False) (emitted s))
     (run worldFlaky (fresh 10)
        [Upload None, Settle, ChunkSettle 1, ChunkSettle 2, ChunkSettle 3, Settle])
   = Some []"
  by code_simp


section \<open>Sessions that complete\<close>

lemma unstatus_map_entry [simp]:
  "unstatus (AList.map_entry k (\<lambda>t. t\<lparr>task_status := st\<rparr>) ts) = unstatus ts"
  by (induction ts) (auto simp: unstatus_def)

lemma logsOnly_refl [simp]: "logsOnly this this"
  by (simp add: logsOnly_def)

lemma logsOnly_fields:
  assumes "logsOnly this this1"
  shows "status this1 = status this" "queue this1 = queue this" "opts this1 = opts this"
    "phase this1 = phase this" "result this1 = result this" "parts this1 = parts this"
    "listening this1 = listening this" "settled this1 = settled this"
    "awaited this1 = awaited this" "totalChunks this1 = totalChunks this"
    "fsize this1 = fsize this" "preuploadID this1 = preuploadID this"
    "fileID this1 = fileID this" "target this1 = target this" "fname this1 = fname this"
    "unstatus (chunkTasks this1) = unstatus (chunkTasks this)"
    "errorListener this1 = errorListener this"
proof -
  let ?a = "this1\<lparr>effects := [], emitted := [], progress := [], chunkTasks := []\<rparr>"
  let ?b = "this\<lparr>effects := [], emitted := [], progress := [], chunkTasks := []\<rparr>"
  have e: "?a = ?b" using assms by (simp add: logsOnly_def)
  have "status ?a = status ?b" by (simp only: e)
  then show "status this1 = status this" by simp
  have "queue ?a = queue ?b" by (simp only: e)
  then show "queue this1 = queue this" by simp
  have "opts ?a = opts ?b" by (simp only: e)
  then show "opts this1 = opts this" by simp
  have "phase ?a = phase ?b" by (simp only: e)
  then show "phase this1 = phase this" by simp
  have "result ?a = result ?b" by (simp only: e)
  then show "result this1 = result this" by simp
  have "parts ?a = parts ?b" by (simp only: e)
  then show "parts this1 = parts this" by simp
  have "listening ?a = listening ?b" by (simp only: e)
  then show "listening this1 = listening this" by simp
  have "settled ?a = settled ?b" by (simp only: e)
  then show "settled this1 = settled this" by simp
  have "awaited ?a = awaited ?b" by (simp only: e)
  then show "awaited this1 = awaited this" by simp
  have "totalChunks ?a = totalChunks ?b" by (simp only: e)
  then show "totalChunks this1 = totalChunks this" by simp
  have "fsize ?a = fsize ?b" by (simp only: e)
  then show "fsize this1 = fsize this" by simp
  have "preuploadID ?a = preuploadID ?b" by (simp only: e)
  then show "preuploadID this1 = preuploadID this" by simp
  have "fileID ?a = fileID ?b" by (simp only: e)
  then show "fileID this1 = fileID this" by simp
  have "target ?a = target ?b" by (simp only: e)
  then show "target this1 = target this" by simp
  have "fname ?a = fname ?b" by (simp only: e)
  then show "fname this1 = fname this" by simp
  show "unstatus (chunkTasks this1) = unstatus (chunkTasks this)"
    using assms by (simp add: logsOnly_def)
  have "errorListener ?a = errorListener ?b" by (simp only: e)
  then show "errorListener this1 = errorListener this" by simp
qed

lemma logsOnly_perform: "logsOnly a this \<Longrightarrow> logsOnly a (perform fx this)"
  by (simp add: logsOnly_def perform_def)

lemma logsOnly_emit: "logsOnly a this \<Longrightarrow> logsOnly a (emit ev this)"
  by (simp add: logsOnly_def emit_def)

lemma logsOnly_setTaskStatus: "logsOnly a this \<Longrightarrow> logsOnly a (setTaskStatus pn st this)"
  by (simp add: logsOnly_def setTaskStatus_def)

lemma logsOnly_onUploadProgress: "logsOnly a this \<Longrightarrow> logsOnly a (onUploadProgress pn this l)"
  by (simp add: logsOnly_def onUploadProgress_def emit_def Let_def)

lemma logsOnly_tryUploadChunk:
  assumes "tryUploadChunk world this ref task k = (this1, r)" and "logsOnly a this"
  shows "logsOnly a this1"
  using assms
  by (auto simp: tryUploadChunk_def getChunkUploadUrl_def axiosPut_def Let_def
      split: sum.splits prod.splits put_result.splits if_splits
      intro!: logsOnly_perform logsOnly_emit)

lemma logsOnly_uploadChunk:
  "uploadChunk world this ref k = (this1, r) \<Longrightarrow> logsOnly a this \<Longrightarrow> logsOnly a this1"
proof (induction world this ref k arbitrary: this1 r rule: uploadChunk.induct)
  case (1 world this ref k)
  show ?case
  proof (cases "map_of (chunkTasks this) ref")
    case None
    with "1.prems" show ?thesis by (simp add: uploadChunk.simps)
  next
    case (Some task)
    obtain s2 r2 where t: "tryUploadChunk world (setTaskStatus (task_chunk task + 1) TaskRunning this)
        ref task k = (s2, r2)" by fastforce
    have q2: "logsOnly a s2"
      by (rule logsOnly_tryUploadChunk [OF t]) (rule logsOnly_setTaskStatus, rule "1.prems")
    show ?thesis
    proof (cases r2)
      case (Inr pn)
      with "1.prems" Some t q2 show ?thesis by (simp add: uploadChunk.simps)
    next
      case (Inl e)
      show ?thesis
      proof (cases "isCancel e")
        case True
        with "1.prems" Some t Inl q2 show ?thesis
          by (auto simp: uploadChunk.simps intro: logsOnly_setTaskStatus)
      next
        case nc: False
        show ?thesis
        proof (cases "k < retryTimes (opts s2)")
          case True
          have "uploadChunk world (perform (DoSleep (retryDelay (opts s2))) s2) ref (k + 1) = (this1, r)"
            using "1.prems"(1) Some t Inl nc True by (simp add: uploadChunk.simps)
          moreover have "logsOnly a (perform (DoSleep (retryDelay (opts s2))) s2)"
            using q2 by (rule logsOnly_perform)
          ultimately show ?thesis
            using "1.IH" [OF Some t [symmetric] Inl nc True] by blast
        next
          case False
          with "1.prems" Some t Inl nc q2 show ?thesis
            by (auto simp: uploadChunk.simps intro: logsOnly_setTaskStatus)
        qed
      qed
    qed
  qed
qed

lemma failsBefore_status [simp]:
  "failsBefore world (task\<lparr>task_status := st\<rparr>) n = failsBefore world task n"
  by (simp add: failsBefore_def)

lemma succeedsWithin_status [simp]:
  "succeedsWithin world b (task\<lparr>task_status := st\<rparr>) = succeedsWithin world b task"
  by (simp add: succeedsWithin_def)




lemma unstatus_setTaskStatus [simp]:
  "unstatus (chunkTasks (setTaskStatus pn st this)) = unstatus (chunkTasks this)"
  by (simp add: setTaskStatus_def)








lemma settlements_simps [simp]:
  "settlements [] = 0"
  "settlements (ChunkSettle ref # acts) = Suc (settlements acts)"
  "settlements (ChunkProgress ref loaded # acts) = settlements acts"
  by (simp_all add: settlements_def)
















lemma uploadCatch_caught: "caught e this (uploadCatch e this)"
  by (simp add: caught_def uploadCatch_def emitError_def emit_def)

lemma settleChunk_caught:
  assumes l: "listening this" "\<not> settled this" "awaited this = None"
    and r: "ref \<in> set (q_running (queue this))"
    and up: "uploadChunk world this ref 0 = (s1, Inl e)"
  shows "\<exists>this2. settleChunk world ref this = Some this2 \<and> caught e s1 this2
     \<and> status s1 = status this \<and> errorListener s1 = errorListener this"
proof -
  have lo: "logsOnly this s1" by (rule logsOnly_uploadChunk [OF up]) simp
  note f1 = logsOnly_fields [OF lo]
  define s2 where "s2 = onError e s1"
  have f2: "listening s2" "settled s2" "awaited s2 = Some (Inl e)" "status s2 = status s1"
    "q_waiting (queue s2) = []" "errorListener s2 = errorListener s1"
    "emitted s2 = emitted s1"
    using f1 l by (simp_all add: s2_def onError_def rejectChunks_def taskClear_def)
  define s3 where "s3 = queueNext ref s2"
  have f3: "awaited s3 = Some (Inl e)" "status s3 = status s1"
    "errorListener s3 = errorListener s1"
    "errorEvents (emitted s3) = errorEvents (emitted s1)"
    using f2 by (auto simp: s3_def queueNext_def tryToStartAnother_def onIdle_def
        resolveChunks_def emit_def Let_def)
  have m: "microtasks s3 = uploadCatch e (s3\<lparr>awaited := None\<rparr>)"
    using f3(1) by (simp add: microtasks_def)
  have "caught e (s3\<lparr>awaited := None\<rparr>) (microtasks s3)"
    unfolding m by (rule uploadCatch_caught)
  then have c: "caught e s1 (emit (EvDebug (DebugChunkFailed e)) (microtasks s3))"
    using f3 by (simp add: caught_def emit_def)
  have "settleChunk world ref this = Some (emit (EvDebug (DebugChunkFailed e)) (microtasks s3))"
    using r up f1(7) l(1) by (simp add: settleChunk_def s3_def s2_def)
  with c f1 show ?thesis by simp
qed











section \<open>Exceptions inside \<open>upload()\<close>\<close>

lemma newUploader_worldFinishDown:
  "newUploader worldFinishDown ''/d/a.bin'' ''tok'' None noOptions = Inr (fresh 10)"
  by (simp add: newUploader_def fresh_def worldFinishDown_def world10_def getFileSizeSync_def
        assignOptions_def noOptions_def pick_def Let_def)

text \<open>
  C5, on the code. An exception of the body of \<open>upload()\<close> comes from a failed create
  request, from the rejection of the promise of \<open>uploadChunks\<close> (a chunk upload that
  threw), from step 3 (\<open>uploadChunks\<close> resolved to \<open>false\<close> in status \<open>running\<close>), from a
  failed finish request or from a failed poll. For each of them: if the status is
  \<open>cancel\<close> when the exception reaches the \<open>catch\<close> block, it is swallowed, \<open>upload()\<close>
  resolves to \<open>undefined\<close> and no \<open>error\<close> event is emitted; otherwise \<open>upload()\<close>
  rejects with the exception. If a listener of \<open>error\<close> is registered the session
  also emits the \<open>error\<close> event and takes the status \<open>error\<close>. If none is, which is how
  the constructor returns the object, \<open>emit("error", error)\<close> throws before the status
  is assigned: no \<open>error\<close> event is delivered and the status stays what it was.
\<close>

theorem upload_catch_policy:
  "(phase this = AwaitCreate \<and> createUploadTask world this = (this1, Inl e) \<longrightarrow>
      (\<exists>this2. step world this Settle = Some this2 \<and> caught e this1 this2))
   \<and> (listening this \<and> \<not> settled this \<and> awaited this = None
        \<and> ref \<in> set (q_running (queue this))
        \<and> uploadChunk world this ref 0 = (this1, Inl e) \<longrightarrow>
      (\<exists>this2. step world this (ChunkSettle ref) = Some this2 \<and> caught e this1 this2))
   \<and> (awaited this = Some (Inl e) \<longrightarrow> caught e this (microtasks this))
   \<and> (awaited this = Some (Inr False) \<and> status this = Running \<longrightarrow>
      caught UploadFailed this (microtasks this))
   \<and> (phase this = AwaitFinish \<and> finishUpload world this (preuploadID this) = (this1, Inl e) \<longrightarrow>
      (\<exists>this2. step world this Settle = Some this2 \<and> caught e this1 this2))
   \<and> (phase this = AwaitPoll
        \<and> pollUploadStatus world this (preuploadID this) = (this1, Inl e) \<longrightarrow>
      (\<exists>this2. step world this Settle = Some this2 \<and> caught e this1 this2))"
proof (intro conjI impI, goal_cases)
  case 1
  then show ?case by (simp add: afterCreate_def uploadCatch_caught)
next
  case 2
  with settleChunk_caught [of this ref world this1 e] show ?case by auto
next
  case 3
  have "caught e (this\<lparr>awaited := None\<rparr>) (uploadCatch e (this\<lparr>awaited := None\<rparr>))"
    by (rule uploadCatch_caught)
  with 3 show ?case by (simp add: microtasks_def caught_def)
next
  case 4
  have "caught UploadFailed (this\<lparr>awaited := None\<rparr>)
      (uploadCatch UploadFailed (this\<lparr>awaited := None\<rparr>))"
    by (rule uploadCatch_caught)
  with 4 show ?case by (simp add: microtasks_def afterChunks_def caught_def)
next
  case 5
  then show ?case by (simp add: afterFinish_def uploadCatch_caught)
next
  case 6
  then show ?case by (simp add: afterPoll_def uploadCatch_caught)
qed

lemma finish_down_sessions:
  "map_option (\<lambda>s. (status s, result s, errorEvents (emitted s)))
     (run worldFinishDown (fresh 10)
        [Upload None, Settle, ChunkSettle 1, ChunkSettle 2, ChunkSettle 3, Settle])
   = Some (Running, Some (Threw (FinishFailed (TransportErr ''down''))), [])"
  "map_option (\<lambda>s. (status s, result s, errorEvents (emitted s)))
     (run worldFinishDown (fresh 10)
        [OnErrorCall, Upload None, Settle, ChunkSettle 1, ChunkSettle 2, ChunkSettle 3, Settle])
   = Some (Error, Some (Threw (FinishFailed (TransportErr ''down''))),
           [FinishFailed (TransportErr ''down'')])"
  "map_option (\<lambda>s. (status s, result s, errorEvents (emitted s)))
     (run worldFinishDown (fresh 10)
        [OnErrorCall, Upload None, Settle, ChunkSettle 1, ChunkSettle 2, ChunkSettle 3,
         CancelCall, Settle])
   = Some (Cancel, Some (Returned None), [])"
  "map_option (\<lambda>s. (status s, result s, errorEvents (emitted s)))
     (run worldBroken (fresh 10) [OnErrorCall, Upload None, Settle, ChunkSettle 2])
   = Some (Error, Some (Threw (TransportErr ''reset'')), [TransportErr ''reset''])"
  by code_simp+

theorem upload_catch_policy_witness:
  "newUploader worldFinishDown ''/d/a.bin'' ''tok'' None noOptions = Inr (fresh 10)
   \<and> map_option (\<lambda>s. (status s, result s, errorEvents (emitted s)))
        (run worldFinishDown (fresh 10)
           [Upload None, Settle, ChunkSettle 1, ChunkSettle 2, ChunkSettle 3, Settle])
       = Some (Running, Some (Threw (FinishFailed (TransportErr ''down''))), [])
   \<and> (\<exists>this2. step worldFinishDown ((fresh 10)\<lparr>phase := AwaitFinish, errorListener := True\<rparr>) Settle
        = Some this2
      \<and> status this2 = Error
      \<and> result this2 = Some (Threw (FinishFailed (TransportErr ''down'')))
      \<and> errorEvents (emitted this2) = [FinishFailed (TransportErr ''down'')])
   \<and> (\<exists>this2. step worldFinishDown ((fresh 10)\<lparr>phase := AwaitFinish\<rparr>) Settle = Some this2
      \<and> status this2 = Pending
      \<and> result this2 = Some (Threw (FinishFailed (TransportErr ''down'')))
      \<and> errorEvents (emitted this2) = [])
   \<and> (\<exists>this2. step worldFinishDown
          ((fresh 10)\<lparr>phase := AwaitFinish, errorListener := True, status := Cancel\<rparr>) Settle
        = Some this2
      \<and> status this2 = Cancel \<and> result this2 = Some (Returned None)
      \<and> errorEvents (emitted this2) = [])
   \<and> map_option (\<lambda>s. (status s, result s, errorEvents (emitted s)))
        (run worldFinishDown (fresh 10)
           [OnErrorCall, Upload None, Settle, ChunkSettle 1, ChunkSettle 2, ChunkSettle 3, Settle])
       = Some (Error, Some (Threw (FinishFailed (TransportErr ''down''))),
               [FinishFailed (TransportErr ''down'')])
   \<and> map_option (\<lambda>s. (status s, result s, errorEvents (emitted s)))
        (run worldFinishDown (fresh 10)
           [OnErrorCall, Upload None, Settle, ChunkSettle 1, ChunkSettle 2, ChunkSettle 3,
            CancelCall, Settle])
       = Some (Cancel, Some (Returned None), [])
   \<and> map_option (\<lambda>s. (status s, result s, errorEvents (emitted s)))
        (run worldBroken (fresh 10) [OnErrorCall, Upload None, Settle, ChunkSettle 2])
       = Some (Error, Some (Threw (TransportErr ''reset'')), [TransportErr ''reset''])"
proof -
  let ?e = "FinishFailed (TransportErr ''down'')"
  have fu: "finishUpload worldFinishDown s (preuploadID s) = (perform (DoUploadComplete (preuploadID s)) s, Inl ?e)"
    for s
    by (simp add: finishUpload_def worldFinishDown_def requestBody_def)
  let ?a = "(fresh 10)\<lparr>phase := AwaitFinish, errorListener := True\<rparr>"
  let ?b = "(fresh 10)\<lparr>phase := AwaitFinish\<rparr>"
  let ?c = "(fresh 10)\<lparr>phase := AwaitFinish, errorListener := True, status := Cancel\<rparr>"
  note t = upload_catch_policy [THEN conjunct2, THEN conjunct2, THEN conjunct2, THEN conjunct2,
      THEN conjunct1]
  from t [of ?a worldFinishDown _ ?e] fu [of ?a]
  have wa: "\<exists>this2. step worldFinishDown ?a Settle = Some this2
      \<and> status this2 = Error \<and> result this2 = Some (Threw ?e)
      \<and> errorEvents (emitted this2) = [?e]"
    by (auto simp: caught_def perform_def fresh_def)
  from t [of ?b worldFinishDown _ ?e] fu [of ?b]
  have wb: "\<exists>this2. step worldFinishDown ?b Settle = Some this2
      \<and> status this2 = Pending \<and> result this2 = Some (Threw ?e)
      \<and> errorEvents (emitted this2) = []"
    by (auto simp: caught_def perform_def fresh_def)
  from t [of ?c worldFinishDown _ ?e] fu [of ?c]
  have wc: "\<exists>this2. step worldFinishDown ?c Settle = Some this2
      \<and> status this2 = Cancel \<and> result this2 = Some (Returned None)
      \<and> errorEvents (emitted this2) = []"
    by (auto simp: caught_def perform_def fresh_def)
  from wa wb wc finish_down_sessions newUploader_worldFinishDown show ?thesis by blast
qed


section \<open>Sessions that do not complete\<close>

lemma newUploader_worldEmpty:
  "newUploader worldEmpty ''/d/a.bin'' ''tok'' None noOptions = Inr (fresh 0)"
  by (simp add: newUploader_def fresh_def worldEmpty_def world10_def getFileSizeSync_def
        assignOptions_def noOptions_def pick_def Let_def)

text \<open>
  C9, on the code. For a file of size 0 the session plans no chunk and adds no job to
  the queue. The promise of \<open>uploadChunks\<close> is settled only by a listener of the queue,
  and the queue emits \<open>idle\<close> only after a job has settled or on \<open>start()\<close>: here
  nothing is pending that could settle or report progress, \<open>upload()\<close> has not
  returned, and the finish request has not been made. The \<open>idle\<close> listener, were it called, would resolve with
  success.
\<close>

theorem zero_size_upload_pends:
  assumes new: "newUploader world path tok parent given = Inr this0"
    and size0: "fsize this0 = 0"
    and md5: "on_md5File world path = Inr etag"
    and create: "on_create world = Inr (ApiResponse 0 msg d)"
    and fresh: "\<not> cd_reuse d" and slice: "0 < cd_sliceSize d"
  shows "\<exists>this. run world this0 [Upload None, Settle] = Some this
     \<and> chunkTasks this = [] \<and> totalChunks this = 0
     \<and> q_waiting (queue this) = [] \<and> q_running (queue this) = []
     \<and> phase this = AwaitChunks \<and> result this = None \<and> awaited this = None
     \<and> effects this = [DoMd5File path,
          DoCreate (pick parent ''0'') (basename world path) 0 etag (duplicate (opts this0))]
     \<and> step world this Settle = None
     \<and> (\<forall>ref. step world this (ChunkSettle ref) = None)
     \<and> (\<forall>ref loaded. step world this (ChunkProgress ref loaded) = None)
     \<and> awaited (onIdle this) = Some (Inr True)"
proof -
  note f0 = newUploader_fields [OF new]
  define s1 where "s1 = uploadCall None this0"
  have g: "fsize s1 = 0" "chunkTasks s1 = []" "q_waiting (queue s1) = []"
    "q_running (queue s1) = []" "result s1 = None" "effects s1 = []" "filePath s1 = path"
    "target s1 = None" "parentFileID s1 = pick parent ''0''" "fname s1 = basename world path"
    "opts s1 = opts this0" "phase s1 = AwaitCreate"
    using f0 size0 by (simp_all add: s1_def uploadCall_def emit_def)
  define s2 where "s2 = perform (DoCreate (pick parent ''0'') (basename world path) 0 etag
      (duplicate (opts this0))) (perform (DoMd5File path) s1)"
  have cr: "createUploadTask world s1 = (s2, Inr d)"
    using g md5 create
    by (simp add: createUploadTask_def requestBody_def s2_def Let_def)
  have g2: "fsize s2 = 0" "chunkTasks s2 = []" "q_waiting (queue s2) = []"
    "q_running (queue s2) = []" "result s2 = None"
    "effects s2 = [DoMd5File path,
          DoCreate (pick parent ''0'') (basename world path) 0 etag (duplicate (opts this0))]"
    using g by (simp_all add: s2_def perform_def)
  have cc: "chunkCount 0 (cd_sliceSize d) = Some 0"
    using slice by (simp add: chunkCount_def)
  have pl: "planFrom s u 0 0 = []" for s u
    by (simp add: planFrom.simps)
  define this where "this = (uploadChunks
      (s2\<lparr>preuploadID := cd_preuploadID d, fileID := cd_fileID d, chunkSize := cd_sliceSize d\<rparr>)
      (cd_preuploadID d) 0)\<lparr>phase := AwaitChunks\<rparr>"
  have a: "afterCreate world s1 = Some this"
    using fresh g2(1) cc by (simp add: afterCreate_def cr Let_def this_def)
  have p: "chunkTasks this = []" "totalChunks this = 0"
      "q_waiting (queue this) = []" "q_running (queue this) = []"
      "phase this = AwaitChunks" "result this = None" "awaited this = None"
      "parts this = []" "\<not> settled this"
      "effects this = [DoMd5File path,
          DoCreate (pick parent ''0'') (basename world path) 0 etag (duplicate (opts this0))]"
    using g2 by (simp_all add: this_def uploadChunks_def pl Let_def)
  have r: "run world this0 [Upload None, Settle] = Some this"
    using f0(1) a g(12) by (simp add: s1_def [symmetric])
  have i: "awaited (onIdle this) = Some (Inr True)"
    using p by (simp add: onIdle_def resolveChunks_def)
  from r p i show ?thesis
    by (simp add: settleChunk_def chunkProgress_def)
qed

theorem zero_size_upload_pends_witness:
  "newUploader worldEmpty ''/d/a.bin'' ''tok'' None noOptions = Inr (fresh 0)
   \<and> fsize (fresh 0) = 0 \<and> on_create worldEmpty = Inr createOk \<and> 0 < cd_sliceSize (resp_data createOk)
   \<and> (\<exists>this. run worldEmpty (fresh 0) [Upload None, Settle] = Some this
        \<and> chunkTasks this = [] \<and> phase this = AwaitChunks \<and> result this = None
        \<and> step worldEmpty this Settle = None
        \<and> (\<forall>ref. step worldEmpty this (ChunkSettle ref) = None)
        \<and> (\<forall>ref loaded. step worldEmpty this (ChunkProgress ref loaded) = None))
   \<and> map_option (\<lambda>s. (status s, phase s, result s))
        (run worldEmpty (fresh 0) [Upload None, Settle, CancelCall])
       = Some (Cancel, AwaitChunks, None)
   \<and> map_option (\<lambda>s. (status s, phase s, result s))
        (run worldEmpty (fresh 0) [Upload None, Settle, PauseCall, ResumeCall, Settle])
       = Some (Completed, Finished, Some (Returned (Some \<lparr>fileId = ''P1'', filename = ''a.bin''\<rparr>)))"
proof -
  have h: "fsize (fresh 0) = 0" "on_md5File worldEmpty ''/d/a.bin'' = Inr ''d41d''"
    "on_create worldEmpty = Inr (ApiResponse 0 ''ok''
       \<lparr> cd_fileID = None, cd_reuse = False, cd_preuploadID = ''P1'', cd_sliceSize = 4 \<rparr>)"
    by (simp_all add: fresh_def worldEmpty_def world10_def createOk_def)
  have c: "on_create worldEmpty = Inr createOk" "0 < cd_sliceSize (resp_data createOk)"
    by (simp_all add: worldEmpty_def world10_def createOk_def)
  have e1: "map_option (\<lambda>s. (status s, phase s, result s))
        (run worldEmpty (fresh 0) [Upload None, Settle, CancelCall])
       = Some (Cancel, AwaitChunks, None)"
    by code_simp
  have e2: "map_option (\<lambda>s. (status s, phase s, result s))
        (run worldEmpty (fresh 0) [Upload None, Settle, PauseCall, ResumeCall, Settle])
       = Some (Completed, Finished, Some (Returned (Some \<lparr>fileId = ''P1'', filename = ''a.bin''\<rparr>)))"
    by code_simp
  have d: "\<not> cd_reuse \<lparr> cd_fileID = None, cd_reuse = False, cd_preuploadID = ''P1'', cd_sliceSize = 4 \<rparr>"
    "0 < cd_sliceSize \<lparr> cd_fileID = None, cd_reuse = False, cd_preuploadID = ''P1'', cd_sliceSize = 4 \<rparr>"
    by simp_all
  from zero_size_upload_pends [OF newUploader_worldEmpty h d]
  have "\<exists>this. run worldEmpty (fresh 0) [Upload None, Settle] = Some this
        \<and> chunkTasks this = [] \<and> phase this = AwaitChunks \<and> result this = None
        \<and> step worldEmpty this Settle = None
        \<and> (\<forall>ref. step worldEmpty this (ChunkSettle ref) = None)
        \<and> (\<forall>ref loaded. step worldEmpty this (ChunkProgress ref loaded) = None)"
    by blast
  with newUploader_worldEmpty h(1) c e1 e2 show ?thesis
    by blast
qed

text \<open>
  C4, on the code. Three chunks, concurrency 3. Without interruption \<open>upload()\<close>
  resolves with the file id. With \<open>pause()\<close> while the three transfers are in flight,
  the aborted transfers settle, the queue is idle, \<open>uploadChunks\<close> resolves \<open>false\<close> and
  \<open>upload()\<close> returns \<open>undefined\<close>; after \<open>resume()\<close> the three chunks are uploaded, but
  nothing awaits them: no finish request, no \<open>completed\<close> event, status \<open>running\<close>. With
  \<open>resume()\<close> called before the aborted transfers have settled, no task is re-submitted
  and \<open>upload()\<close> throws, in status \<open>error\<close> when the caller listens to \<open>error\<close> and
  in status \<open>running\<close> when not. With four chunks, of which one still waits in the queue at
  the pause, pause and resume do lead to completion.
\<close>

theorem pause_resume_loses_upload:
  "map_option (\<lambda>s. (status s, result s, completedInfos (emitted s)))
     (run world10 (fresh 10)
        [Upload None, Settle, ChunkSettle 1, ChunkSettle 2, ChunkSettle 3, Settle])
     = Some (Completed, Some (Returned (Some \<lparr>fileId = ''P1'', filename = ''a.bin''\<rparr>)),
             [\<lparr>fileId = ''P1'', filename = ''a.bin''\<rparr>])
   \<and> map_option (\<lambda>s. (status s, result s, completedInfos (emitted s), parts s))
     (run world10 (fresh 10)
        [Upload None, Settle, PauseCall, ChunkSettle 1, ChunkSettle 2, ChunkSettle 3, ResumeCall,
         ChunkSettle 1, ChunkSettle 2, ChunkSettle 3])
     = Some (Running, Some (Returned None), [], [1, 2, 3])
   \<and> run world10 (fresh 10)
        [Upload None, Settle, PauseCall, ChunkSettle 1, ChunkSettle 2, ChunkSettle 3, ResumeCall,
         ChunkSettle 1, ChunkSettle 2, ChunkSettle 3, Settle] = None
   \<and> map_option (\<lambda>s. (status s, result s, completedInfos (emitted s)))
     (run world10 (fresh 10)
        [OnErrorCall, Upload None, Settle, PauseCall, ResumeCall, ChunkSettle 1, ChunkSettle 2,
         ChunkSettle 3])
     = Some (Error, Some (Threw UploadFailed), [])
   \<and> map_option (\<lambda>s. (status s, result s, completedInfos (emitted s)))
     (run world10 (fresh 10)
        [Upload None, Settle, PauseCall, ResumeCall, ChunkSettle 1, ChunkSettle 2, ChunkSettle 3])
     = Some (Running, Some (Threw UploadFailed), [])
   \<and> map_option (\<lambda>s. (status s, result s, completedInfos (emitted s)))
     (run world16 (fresh 16)
        [Upload None, Settle, PauseCall, ChunkSettle 1, ChunkSettle 2, ChunkSettle 3, ResumeCall,
         ChunkSettle 4, ChunkSettle 1, ChunkSettle 2, ChunkSettle 3, Settle])
     = Some (Completed, Some (Returned (Some \<lparr>fileId = ''P1'', filename = ''a.bin''\<rparr>)),
             [\<lparr>fileId = ''P1'', filename = ''a.bin''\<rparr>])"
  by code_simp



end
